theory Spec2Isabelle
  imports Complex_Main
begin

section \<open>Python values, exceptions and console output\<close>

text \<open>
  A Python float is either a number or not-a-number. A number is the real it denotes;
  infinities are not modelled. Comparisons are exact, and those with NaN are false, as in
  Python. Arithmetic on floats rounds its result: where the source computes with floats
  (the sampling intervals of \<open>read_eem_dataset\<close> and \<open>read_abs_dataset\<close>), the rounding of
  binary64 is a parameter of the model, see below.
\<close>

datatype pyfloat = Float real | NaN

datatype error = IndexError | ValueError | UnboundLocalError | PandasError

text \<open>What the readers print: the two numbers of the column report of \<open>read_eem\<close>, and the
  file name of the dimension report of \<open>read_eem_dataset\<close>.\<close>

datatype message = ColumnReport nat nat | CheckDimension string

fun float_gt :: "pyfloat \<Rightarrow> pyfloat \<Rightarrow> bool" where
  "float_gt (Float a) (Float b) = (b < a)"
| "float_gt _ _ = False"

fun float_lt :: "pyfloat \<Rightarrow> pyfloat \<Rightarrow> bool" where
  "float_lt (Float a) (Float b) = (a < b)"
| "float_lt _ _ = False"

section \<open>Text files and tokens\<close>

text \<open>
  A file is the list of its lines, in order, without the line terminators. Every element of
  the list is a line that \<open>readline\<close> returns as a non-empty string (it carries its line
  break); the end of the file is the end of the list, where \<open>readline\<close> returns the empty
  string.
\<close>

definition readline :: "string list \<Rightarrow> string" where
  "readline lines = (case lines of [] \<Rightarrow> [] | l # _ \<Rightarrow> l)"

definition isspace :: "char \<Rightarrow> bool" where
  "isspace c = (c \<in> set [CHR 0x09, CHR 0x0A, CHR 0x0B, CHR 0x0C, CHR 0x0D,
                           CHR 0x1C, CHR 0x1D, CHR 0x1E, CHR 0x1F, CHR 0x20])"

definition isdigit :: "char \<Rightarrow> bool" where
  "isdigit c = (c \<in> set ''0123456789'')"

text \<open>The maximal runs of characters satisfying \<open>p\<close>, left to right; \<open>cur\<close> is the run being
  read.\<close>

fun runs :: "(char \<Rightarrow> bool) \<Rightarrow> string \<Rightarrow> string \<Rightarrow> string list" where
  "runs p cur [] = (if cur = [] then [] else [cur])"
| "runs p cur (c # cs) =
     (if p c then runs p (cur @ [c]) cs
      else if cur = [] then runs p [] cs
      else cur # runs p [] cs)"

text \<open>\<open>line.split()\<close>: the whitespace-separated tokens.\<close>

definition py_split :: "string \<Rightarrow> string list" where
  "py_split s = runs (\<lambda>c. \<not> isspace c) [] s"

text \<open>\<open>re.findall(r"\d+", line)\<close>: the maximal digit sequences.\<close>

definition findall_digits :: "string \<Rightarrow> string list" where
  "findall_digits s = runs isdigit [] s"

text \<open>\<open>int\<close> on a digit sequence.\<close>

definition digit_val :: "char \<Rightarrow> int" where
  "digit_val c = int (of_char c) - 48"

definition py_int :: "string \<Rightarrow> int" where
  "py_int ds = foldl (\<lambda>a c. 10 * a + digit_val c) 0 ds"

text \<open>
  \<open>float\<close> on a token is a parameter of every reader below, written \<open>float\<close>, of type
  \<open>string \<Rightarrow> pyfloat option\<close>: \<open>None\<close> where Python raises \<open>ValueError\<close>. The theorems hold
  for every such function. \<open>map_float\<close> is \<open>list(map(float, tokens))\<close>: it raises as soon as
  one token does.
\<close>

definition map_float :: "(string \<Rightarrow> pyfloat option) \<Rightarrow> string list \<Rightarrow> pyfloat list option" where
  "map_float float tokens = those (map float tokens)"

text \<open>A sample \<open>float\<close> for evaluating the readers on concrete files: plain decimal literals
  \<open>ddd\<close> and \<open>ddd.ddd\<close>, read as the decimal number they write. Python gives the double
  nearest to that number, which is the number itself when it is an integer or a binary
  fraction such as 2.5. Where the result turns on the rounding, \<open>dec_float64\<close> further down
  is used, which rounds as Python does.\<close>

definition dec_float :: "string \<Rightarrow> pyfloat option" where
  "dec_float s =
     (let a = takeWhile isdigit s; b = dropWhile isdigit s in
      if a = [] then None
      else (case b of
              [] \<Rightarrow> Some (Float (of_int (py_int a)))
            | c # ds \<Rightarrow>
                if c = CHR ''.'' \<and> ds \<noteq> [] \<and> list_all isdigit ds
                then Some (Float (of_int (py_int (a @ ds)) / 10 ^ length ds))
                else None))"

section \<open>Index extraction\<close>

text \<open>\<open>os.path.basename(file_path)[index_pos[0]:index_pos[1] + 1]\<close>, for a pair of
  non-negative offsets; \<open>index_pos = None\<close> gives no index.\<close>

definition basename :: "string \<Rightarrow> string" where
  "basename p = rev (takeWhile (\<lambda>c. c \<noteq> CHR ''/'') (rev p))"

definition get_index :: "string \<Rightarrow> (nat \<times> nat) option \<Rightarrow> string option" where
  "get_index file_path index_pos =
     (case index_pos of
        None \<Rightarrow> None
      | Some (s, e) \<Rightarrow> Some (take (e + 1 - s) (drop s (basename file_path))))"

section \<open>read\_eem\<close>

type_synonym matrix = "pyfloat list list"

text \<open>\<open>np.size\<close> of a two-dimensional array given by its rows, and its column count.\<close>

definition np_size :: "matrix \<Rightarrow> nat" where
  "np_size m = sum_list (map length m)"

definition ncols :: "matrix \<Rightarrow> nat" where
  "ncols m = (case m of [] \<Rightarrow> 0 | r # _ \<Rightarrow> length r)"

definition shape :: "matrix \<Rightarrow> nat \<times> nat" where
  "shape m = (length m, ncols m)"

text \<open>\<open>data.T\<close> for an array of shape \<open>(k, n)\<close> given by its \<open>k\<close> rows: the result has \<open>n\<close> rows,
  also when \<open>k = 0\<close>.\<close>

definition transpose_rows :: "nat \<Rightarrow> matrix \<Rightarrow> matrix" where
  "transpose_rows n rows = map (\<lambda>j. map (\<lambda>r. r ! j) rows) [0..<n]"

text \<open>
  The row loop of \<open>read_eem\<close> (source lines 62-79). \<open>data\<close> starts with the row of zeros
  that has the header's width, so \<open>np.concatenate\<close> accepts a data line exactly when it has
  as many values as that row. A line without any token raises \<open>IndexError\<close>; a first token
  that is not a number skips the line; the emission value is appended before the rest of
  the line is parsed, so a line whose later token is not a number leaves its emission
  value behind and is skipped; a line of the wrong width prints the report and leaves the
  loop.
\<close>

fun read_eem_rows ::
  "(string \<Rightarrow> pyfloat option) \<Rightarrow> string list \<Rightarrow> pyfloat list \<Rightarrow> matrix \<Rightarrow>
     error + (pyfloat list \<times> matrix \<times> message list)" where
  "read_eem_rows float [] idx data = Inr (idx, data, [])"
| "read_eem_rows float (line # rest) idx data =
     (case py_split line of
        [] \<Rightarrow> Inl IndexError
      | initial # tokens \<Rightarrow>
          (case float initial of
             None \<Rightarrow> read_eem_rows float rest idx data
           | Some v \<Rightarrow>
               (case map_float float tokens of
                  None \<Rightarrow> read_eem_rows float rest (idx @ [v]) data
                | Some dataline \<Rightarrow>
                    if length dataline = ncols data
                    then read_eem_rows float rest (idx @ [v]) (data @ [dataline])
                    else Inr (idx @ [v], data,
                              [ColumnReport (np_size data) (length dataline)]))))"

text \<open>
  \<open>read_eem\<close>. With a format other than \<open>'aqualog'\<close> the body of the \<open>if\<close> is skipped and
  \<open>intensity = data.T\<close> reads the unbound name \<open>data\<close>. \<open>em_range[1]\<close> and \<open>ex_range[1]\<close>
  raise \<open>IndexError\<close> on a grid of fewer than two points. Only the grids are flipped;
  \<open>intensity\<close> is the transposed table as read. The \<open>Warning(...)\<close> in the \<open>else\<close> branch
  builds an object and has no effect.
\<close>

definition read_eem ::
  "(string \<Rightarrow> pyfloat option) \<Rightarrow> string \<Rightarrow> string list \<Rightarrow> (nat \<times> nat) option \<Rightarrow> string \<Rightarrow>
     error + ((matrix \<times> int list \<times> pyfloat list \<times> string option) \<times> message list)" where
  "read_eem float file_path lines index_pos data_format =
     (let index = get_index file_path index_pos in
      if data_format = ''aqualog'' then
        (let firstline = findall_digits (readline lines);
             header = map py_int firstline
         in case read_eem_rows float (tl lines) [] [replicate (length header) (Float 0)] of
              Inl e \<Rightarrow> Inl e
            | Inr (idx, data, printed) \<Rightarrow>
                (let intensity = transpose_rows (length header) (tl data) in
                 if length idx < 2 then Inl IndexError
                 else
                   (let em_range = (if float_gt (idx ! 0) (idx ! 1) then rev idx else idx) in
                    if length header < 2 then Inl IndexError
                    else
                      (let ex_range = (if header ! 0 > header ! 1 then rev header else header)
                       in Inr ((intensity, ex_range, em_range, index), printed)))))
      else Inl UnboundLocalError)"


subsection \<open>The table an EEM file holds, read off its text\<close>

text \<open>
  These describe the file, not the reader. The header gives the excitation wavelengths. A
  line after the header is a data line when its first token is a number; that number is
  its emission wavelength and the numbers after it are its intensities, one per excitation
  wavelength. A file is well formed when the header has at least two wavelengths, there
  are at least two data lines, no line is without token, and every data line has exactly
  one number per header column.
\<close>

definition eem_header :: "string list \<Rightarrow> int list" where
  "eem_header lines = map py_int (findall_digits (readline lines))"

definition is_data_line :: "(string \<Rightarrow> pyfloat option) \<Rightarrow> string \<Rightarrow> bool" where
  "is_data_line float line =
     (case py_split line of [] \<Rightarrow> False | initial # _ \<Rightarrow> float initial \<noteq> None)"

definition line_em :: "(string \<Rightarrow> pyfloat option) \<Rightarrow> string \<Rightarrow> pyfloat" where
  "line_em float line =
     (case py_split line of
        [] \<Rightarrow> NaN
      | initial # _ \<Rightarrow> (case float initial of None \<Rightarrow> NaN | Some v \<Rightarrow> v))"

definition line_values :: "(string \<Rightarrow> pyfloat option) \<Rightarrow> string \<Rightarrow> pyfloat list" where
  "line_values float line =
     (case py_split line of
        [] \<Rightarrow> []
      | _ # tokens \<Rightarrow> (case map_float float tokens of None \<Rightarrow> [] | Some vs \<Rightarrow> vs))"

definition eem_line_ok :: "(string \<Rightarrow> pyfloat option) \<Rightarrow> nat \<Rightarrow> string \<Rightarrow> bool" where
  "eem_line_ok float n line =
     (case py_split line of
        [] \<Rightarrow> False
      | initial # tokens \<Rightarrow>
          (case float initial of
             None \<Rightarrow> True
           | Some _ \<Rightarrow>
               (case map_float float tokens of None \<Rightarrow> False | Some vs \<Rightarrow> length vs = n)))"

definition eem_em_column :: "(string \<Rightarrow> pyfloat option) \<Rightarrow> string list \<Rightarrow> pyfloat list" where
  "eem_em_column float lines = map (line_em float) (filter (is_data_line float) (tl lines))"

definition eem_value_rows :: "(string \<Rightarrow> pyfloat option) \<Rightarrow> string list \<Rightarrow> matrix" where
  "eem_value_rows float lines = map (line_values float) (filter (is_data_line float) (tl lines))"

definition eem_well_formed :: "(string \<Rightarrow> pyfloat option) \<Rightarrow> string list \<Rightarrow> bool" where
  "eem_well_formed float lines =
     (2 \<le> length (eem_header lines) \<and>
      2 \<le> length (filter (is_data_line float) (tl lines)) \<and>
      list_all (eem_line_ok float (length (eem_header lines))) (tl lines))"

text \<open>A line whose first token is a number and whose later tokens are not all numbers: the
  row loop keeps its emission value and drops its intensities.\<close>

definition half_parsed :: "(string \<Rightarrow> pyfloat option) \<Rightarrow> string \<Rightarrow> bool" where
  "half_parsed float line =
     (case py_split line of
        [] \<Rightarrow> False
      | initial # tokens \<Rightarrow> float initial \<noteq> None \<and> map_float float tokens = None)"

text \<open>A line of numbers whose count of intensities differs from \<open>n\<close>: the row loop stops
  at the first such line.\<close>

definition width_mismatch :: "(string \<Rightarrow> pyfloat option) \<Rightarrow> nat \<Rightarrow> string \<Rightarrow> bool" where
  "width_mismatch float n line =
     (case py_split line of
        [] \<Rightarrow> False
      | initial # tokens \<Rightarrow>
          float initial \<noteq> None \<and>
          (case map_float float tokens of None \<Rightarrow> False | Some vs \<Rightarrow> length vs \<noteq> n))"

definition full_row :: "(string \<Rightarrow> pyfloat option) \<Rightarrow> nat \<Rightarrow> string \<Rightarrow> bool" where
  "full_row float n line =
     (case py_split line of
        [] \<Rightarrow> False
      | initial # tokens \<Rightarrow>
          float initial \<noteq> None \<and>
          (case map_float float tokens of None \<Rightarrow> False | Some vs \<Rightarrow> length vs = n))"


section \<open>read\_abs\<close>

text \<open>
  The line loop of \<open>read_abs\<close> (source lines 221-230). The wavelength is read outside the
  \<open>try\<close>: a line without token raises \<open>IndexError\<close> and a first token that is not a number
  raises \<open>ValueError\<close>. Inside the \<open>try\<close> only \<open>IndexError\<close> is caught: without a second
  token NaN is stored, and a second token that is not a number raises \<open>ValueError\<close>.
\<close>

fun read_abs_lines ::
  "(string \<Rightarrow> pyfloat option) \<Rightarrow> string list \<Rightarrow> pyfloat list \<Rightarrow> pyfloat list \<Rightarrow>
     error + (pyfloat list \<times> pyfloat list)" where
  "read_abs_lines float [] idx data = Inr (idx, data)"
| "read_abs_lines float (line # rest) idx data =
     (case py_split line of
        [] \<Rightarrow> Inl IndexError
      | initial # tokens \<Rightarrow>
          (case float initial of
             None \<Rightarrow> Inl ValueError
           | Some w \<Rightarrow>
               (case tokens of
                  [] \<Rightarrow> read_abs_lines float rest (idx @ [w]) (data @ [NaN])
                | t # _ \<Rightarrow>
                    (case float t of
                       None \<Rightarrow> Inl ValueError
                     | Some v \<Rightarrow> read_abs_lines float rest (idx @ [w]) (data @ [v])))))"

text \<open>\<open>read_abs\<close> returns \<open>(absorbance, ex_range, index)\<close>. With a format other than
  \<open>'aqualog'\<close> the \<open>else\<close> branch builds a \<open>Warning\<close> object, and the \<open>return\<close> reads the
  unbound name \<open>absorbance\<close>.\<close>

definition read_abs ::
  "(string \<Rightarrow> pyfloat option) \<Rightarrow> string \<Rightarrow> string list \<Rightarrow> (nat \<times> nat) option \<Rightarrow> string \<Rightarrow>
     error + (pyfloat list \<times> pyfloat list \<times> string option)" where
  "read_abs float file_path lines index_pos data_format =
     (let index = get_index file_path index_pos in
      if data_format = ''aqualog'' then
        (case read_abs_lines float lines [] [] of
           Inl e \<Rightarrow> Inl e
         | Inr (idx, data) \<Rightarrow>
             (let ex_range = rev idx; absorbance = rev data
              in Inr (absorbance, ex_range, index)))
      else Inl UnboundLocalError)"

subsection \<open>The spectrum an absorbance file holds, read off its text\<close>

text \<open>A line is acceptable when its first token is a number and its second token, if there
  is one, is a number too. The value of a line with a single token is NaN; otherwise it is
  the number of the second token.\<close>

definition abs_line_ok :: "(string \<Rightarrow> pyfloat option) \<Rightarrow> string \<Rightarrow> bool" where
  "abs_line_ok float line =
     (case py_split line of
        [] \<Rightarrow> False
      | w # tokens \<Rightarrow>
          float w \<noteq> None \<and> (case tokens of [] \<Rightarrow> True | t # _ \<Rightarrow> float t \<noteq> None))"

definition abs_line_value :: "(string \<Rightarrow> pyfloat option) \<Rightarrow> string \<Rightarrow> pyfloat" where
  "abs_line_value float line =
     (case py_split line of
        [] \<Rightarrow> NaN
      | [w] \<Rightarrow> NaN
      | w # t # _ \<Rightarrow> (case float t of None \<Rightarrow> NaN | Some v \<Rightarrow> v))"

section \<open>read\_reference\_from\_text\<close>

text \<open>
  The loop of \<open>read_reference_from_text\<close> (source lines 304-309) reads the lines after the
  header. Only \<open>IndexError\<close> is caught: a line without token is passed over (and so is the
  empty string at the end of the file, which ends the loop); a first token that is not a
  number raises \<open>ValueError\<close>.
\<close>

fun reference_lines ::
  "(string \<Rightarrow> pyfloat option) \<Rightarrow> string list \<Rightarrow> pyfloat list \<Rightarrow> error + pyfloat list" where
  "reference_lines float [] reference_data = Inr reference_data"
| "reference_lines float (line # rest) reference_data =
     (case py_split line of
        [] \<Rightarrow> reference_lines float rest reference_data
      | t # _ \<Rightarrow>
          (case float t of
             None \<Rightarrow> Inl ValueError
           | Some v \<Rightarrow> reference_lines float rest (reference_data @ [v])))"

text \<open>\<open>header = line.split()[0]\<close> is outside the \<open>try\<close>: an empty file or a first line
  without token raises \<open>IndexError\<close>.\<close>

definition read_reference_from_text ::
  "(string \<Rightarrow> pyfloat option) \<Rightarrow> string list \<Rightarrow> error + (pyfloat list \<times> string)" where
  "read_reference_from_text float lines =
     (case py_split (readline lines) of
        [] \<Rightarrow> Inl IndexError
      | header # _ \<Rightarrow>
          (case reference_lines float (tl lines) [] of
             Inl e \<Rightarrow> Inl e
           | Inr reference_data \<Rightarrow> Inr (reference_data, header)))"

definition has_token :: "string \<Rightarrow> bool" where
  "has_token line = (py_split line \<noteq> [])"

definition ref_line_ok :: "(string \<Rightarrow> pyfloat option) \<Rightarrow> string \<Rightarrow> bool" where
  "ref_line_ok float line =
     (case py_split line of [] \<Rightarrow> True | t # _ \<Rightarrow> float t \<noteq> None)"

section \<open>Floating-point arithmetic\<close>

text \<open>
  The grids are NumPy arrays of binary64 numbers (the excitation grid of \<open>read_eem\<close>: of
  64-bit integers), and the aggregators subtract and divide them. An operation of IEEE 754
  returns the exact result rounded to a representable number. The rounding is a parameter
  \<open>rnd\<close> of the aggregators, as \<open>float\<close> is of the readers: every theorem below holds for
  every rounding, and so for the one of the machine.
\<close>

type_synonym rounding = "real \<Rightarrow> real"

text \<open>
  The rounding of binary64 itself, for evaluating the aggregators on concrete files: to
  the nearest number with 53 significant bits, ties to the even one, with the fixed
  spacing \<open>2 ^ - 1074\<close> below \<open>2 ^ - 1022\<close>. Results beyond the largest double, where the
  machine gives an infinity, are outside the model.
\<close>

fun bit_length :: "nat \<Rightarrow> nat" where
  "bit_length n = (if n = 0 then 0 else Suc (bit_length (n div 2)))"

declare bit_length.simps [simp del]

definition pow2 :: "int \<Rightarrow> real" where
  "pow2 e = (if 0 \<le> e then 2 ^ nat e else 1 / 2 ^ nat (- e))"

text \<open>The exponent \<open>e\<close> of a positive number \<open>x\<close>: \<open>2 ^ e \<le> x < 2 ^ (e + 1)\<close>.\<close>

definition floor_log2 :: "real \<Rightarrow> int" where
  "floor_log2 x =
     (if 1 \<le> x then int (bit_length (nat \<lfloor>x\<rfloor>)) - 1
      else (let k = int (bit_length (nat \<lfloor>1 / x\<rfloor>))
            in if 1 / x = pow2 (k - 1) then - (k - 1) else - k))"

definition round_half_even :: "real \<Rightarrow> int" where
  "round_half_even x =
     (let n = \<lfloor>x\<rfloor>; r = x - of_int n
      in if r < 1 / 2 then n else if 1 / 2 < r then n + 1 else if even n then n else n + 1)"

definition binary64 :: rounding where
  "binary64 x =
     (if x = 0 then 0
      else (let e = max (floor_log2 \<bar>x\<bar>) (- 1022); u = pow2 (e - 52)
            in sgn x * of_int (round_half_even (\<bar>x\<bar> / u)) * u))"

text \<open>Python's \<open>float\<close> on a plain decimal literal: the double nearest to the number written.\<close>

definition dec_float64 :: "string \<Rightarrow> pyfloat option" where
  "dec_float64 s =
     (case dec_float s of
        None \<Rightarrow> None
      | Some NaN \<Rightarrow> Some NaN
      | Some (Float r) \<Rightarrow> Some (Float (binary64 r)))"

section \<open>read\_eem\_dataset\<close>

text \<open>
  The sampling interval \<open>(np.max(r) - np.min(r)) / (r.shape[0] - 1)\<close> of a grid, for the
  emission grid (floats) and for the excitation grid (integers). \<open>np.max\<close> and \<open>np.min\<close> are
  NaN when the array holds a NaN. The difference of two floats is rounded, and so is the
  quotient; the difference of two integers is exact and is converted to a float, with
  rounding, for the division. The divisor is a count of grid points, a small integer that
  the conversion leaves as it is. Every grid that \<open>read_eem\<close> returns has at least two
  points, so the loop never divides by zero and never takes the maximum of an empty
  array; on shorter lists the interval is set to NaN.
\<close>

fun float_vals :: "pyfloat list \<Rightarrow> real list option" where
  "float_vals [] = Some []"
| "float_vals (NaN # _) = None"
| "float_vals (Float r # xs) = (case float_vals xs of None \<Rightarrow> None | Some rs \<Rightarrow> Some (r # rs))"

definition interval_em :: "rounding \<Rightarrow> pyfloat list \<Rightarrow> pyfloat" where
  "interval_em rnd r =
     (case float_vals r of
        None \<Rightarrow> NaN
      | Some rs \<Rightarrow>
          if length rs < 2 then NaN
          else Float (rnd (rnd (Max (set rs) - Min (set rs)) / real (length rs - 1))))"

definition interval_ex :: "rounding \<Rightarrow> int list \<Rightarrow> pyfloat" where
  "interval_ex rnd r =
     (if length r < 2 then NaN
      else Float (rnd (rnd (real_of_int (Max (set r) - Min (set r))) / real (length r - 1))))"

text \<open>
  The interpolation of one matrix, \<open>eem_interpolation\<close>, is defined outside this file; it is
  a parameter \<open>interp\<close> of the aggregator, called as the source calls it: method (\<open>None\<close>
  where the call leaves the default), matrix, emission grid, flipped excitation grid,
  target emission grid, flipped target excitation grid.
\<close>

type_synonym interpolation =
  "string option \<Rightarrow> matrix \<Rightarrow> pyfloat list \<Rightarrow> int list \<Rightarrow> pyfloat list \<Rightarrow> int list \<Rightarrow> matrix"

text \<open>
  \<open>process_eem_stack\<close>. Modelled from the spec: the function is defined outside this file;
  the spec describes it as applying a given per-slice function across every slice of a
  stack.
\<close>

definition process_eem_stack ::
  "matrix list \<Rightarrow> (matrix \<Rightarrow> 'a \<Rightarrow> 'b \<Rightarrow> 'c \<Rightarrow> 'd \<Rightarrow> matrix) \<Rightarrow> 'a \<Rightarrow> 'b \<Rightarrow> 'c \<Rightarrow> 'd \<Rightarrow> matrix list" where
  "process_eem_stack eem_stack f a b c d = map (\<lambda>slice. f slice a b c d) eem_stack"

text \<open>\<open>np.zeros\<close> of a two-dimensional shape.\<close>

definition zeros :: "nat \<times> nat \<Rightarrow> matrix" where
  "zeros sh = replicate (fst sh) (replicate (snd sh) (Float 0))"

text \<open>
  The assignment \<open>eem_stack[n, :, :] = intensity\<close>. NumPy broadcasts the right-hand side to
  the shape of the slice: each of its dimensions must equal the dimension of the slice or
  be 1, otherwise the assignment raises \<open>ValueError\<close>, which the loop catches, printing
  the file name and leaving the slice as it is.
\<close>

definition broadcastable :: "nat \<times> nat \<Rightarrow> nat \<times> nat \<Rightarrow> bool" where
  "broadcastable sh target =
     ((fst sh = fst target \<or> fst sh = 1) \<and> (snd sh = snd target \<or> snd sh = 1))"

definition broadcast_row :: "nat \<Rightarrow> pyfloat list \<Rightarrow> pyfloat list" where
  "broadcast_row b r = (if length r = b then r else replicate b (r ! 0))"

definition broadcast_to :: "nat \<times> nat \<Rightarrow> matrix \<Rightarrow> matrix" where
  "broadcast_to target m =
     (let rows = map (broadcast_row (snd target)) m
      in if length rows = fst target then rows else replicate (fst target) (rows ! 0))"

definition set_slice :: "matrix list \<Rightarrow> nat \<Rightarrow> matrix \<Rightarrow> string \<Rightarrow> matrix list \<times> message list" where
  "set_slice eem_stack n intensity filename =
     (if broadcastable (shape intensity) (shape (eem_stack ! n))
      then (eem_stack[n := broadcast_to (shape (eem_stack ! n)) intensity], [])
      else (eem_stack, [CheckDimension filename]))"

text \<open>
  The alignment of one newly read file against the running grids (source lines 158-178).
  The target on an axis is the old grid when the new interval is larger, the new grid
  otherwise. When the new file is coarser on some axis its matrix is interpolated and
  both grids are reset to the old ones; when it is finer on some axis the stack is
  interpolated. \<open>calls\<close> counts the calls to the interpolation functions.
\<close>

definition align ::
  "rounding \<Rightarrow> interpolation \<Rightarrow> string \<Rightarrow> matrix list \<Rightarrow> matrix \<Rightarrow>
     int list \<Rightarrow> pyfloat list \<Rightarrow>
     int list \<Rightarrow> pyfloat list \<Rightarrow> nat \<Rightarrow>
     matrix list \<times> matrix \<times> int list \<times> pyfloat list \<times> nat" where
  "align rnd interp interpolation_method eem_stack intensity ex_range em_range
         ex_range_old em_range_old calls =
     (let em_interval_new = interval_em rnd em_range;
          em_interval_old = interval_em rnd em_range_old;
          ex_interval_new = interval_ex rnd ex_range;
          ex_interval_old = interval_ex rnd ex_range_old;
          em_range_target =
            (if float_gt em_interval_new em_interval_old then em_range_old else em_range);
          ex_range_target =
            (if float_gt ex_interval_new ex_interval_old then ex_range_old else ex_range);
          coarser = (float_gt em_interval_new em_interval_old \<or>
                     float_gt ex_interval_new ex_interval_old);
          finer = (float_lt em_interval_new em_interval_old \<or>
                   float_lt ex_interval_new ex_interval_old);
          intensity1 =
            (if coarser
             then interp (Some interpolation_method) intensity em_range (rev ex_range)
                    em_range_target (rev ex_range_target)
             else intensity);
          em_range1 = (if coarser then em_range_old else em_range);
          ex_range1 = (if coarser then ex_range_old else ex_range);
          calls1 = (if coarser then calls + 1 else calls);
          eem_stack1 =
            (if finer
             then process_eem_stack eem_stack (interp None) em_range_old (rev ex_range_old)
                    em_range_target (rev ex_range_target)
             else eem_stack);
          calls2 = (if finer then calls1 + 1 else calls1)
      in (eem_stack1, intensity1, ex_range1, em_range1, calls2))"

text \<open>
  The loop over the files after the first (source lines 153-184). A file is its name
  and its lines. The state is the stack, the running grids \<open>ex_range_old\<close> and
  \<open>em_range_old\<close> (at the end of every pass \<open>ex_range\<close> and \<open>em_range\<close> are copied into them,
  so they are also the grids returned), the indexes, what was printed, and the count of
  interpolation calls. These files are read without \<open>index_pos\<close>. An exception of
  \<open>read_eem\<close> ends the loop.
\<close>

fun read_eem_dataset_loop ::
  "(string \<Rightarrow> pyfloat option) \<Rightarrow> rounding \<Rightarrow> interpolation \<Rightarrow>
     string \<Rightarrow> string \<Rightarrow> bool \<Rightarrow> string \<Rightarrow>
     (string \<times> string list) list \<Rightarrow> nat \<Rightarrow>
     matrix list \<times> int list \<times> pyfloat list \<times> string option list \<times> message list \<times> nat \<Rightarrow>
     error + (matrix list \<times> int list \<times> pyfloat list \<times> string option list \<times> message list \<times> nat)"
  where
  "read_eem_dataset_loop float rnd interp folder_path data_format wavelength_alignment
       interpolation_method [] n st = Inr st"
| "read_eem_dataset_loop float rnd interp folder_path data_format wavelength_alignment
       interpolation_method ((filename, lines) # rest) n
       (eem_stack, ex_range_old, em_range_old, indexes, printed, calls) =
     (case read_eem float (folder_path @ ''/'' @ filename) lines None data_format of
        Inl e \<Rightarrow> Inl e
      | Inr ((intensity, ex_range, em_range, index), msgs) \<Rightarrow>
          (case (if wavelength_alignment
                 then align rnd interp interpolation_method eem_stack intensity ex_range em_range
                        ex_range_old em_range_old calls
                 else (eem_stack, intensity, ex_range, em_range, calls)) of
             (eem_stack1, intensity1, ex_range1, em_range1, calls1) \<Rightarrow>
               (case set_slice eem_stack1 n intensity1 filename of
                  (eem_stack2, msgs2) \<Rightarrow>
                    read_eem_dataset_loop float rnd interp folder_path data_format
                      wavelength_alignment interpolation_method rest (Suc n)
                      (eem_stack2, ex_range1, em_range1, indexes @ [index],
                       printed @ msgs @ msgs2, calls1))))"

text \<open>
  \<open>read_eem_dataset\<close>. \<open>files\<close> is \<open>filename_list\<close> (the custom list, or what \<open>get_filelist\<close>
  found) with the content of each file. \<open>filename_list[0]\<close> raises \<open>IndexError\<close> on an empty
  list. The result is the source's tuple, with what was printed and the count of
  interpolation calls beside it.
\<close>

definition read_eem_dataset ::
  "(string \<Rightarrow> pyfloat option) \<Rightarrow> rounding \<Rightarrow> interpolation \<Rightarrow> string \<Rightarrow>
     (string \<times> string list) list \<Rightarrow>
     string \<Rightarrow> (nat \<times> nat) option \<Rightarrow> bool \<Rightarrow> string \<Rightarrow>
     error + ((matrix list \<times> int list \<times> pyfloat list \<times> string option list) \<times>
              message list \<times> nat)" where
  "read_eem_dataset float rnd interp folder_path files data_format index_pos
       wavelength_alignment interpolation_method =
     (case files of
        [] \<Rightarrow> Inl IndexError
      | (filename, lines) # rest \<Rightarrow>
          (case read_eem float (folder_path @ ''/'' @ filename) lines index_pos data_format of
             Inl e \<Rightarrow> Inl e
           | Inr ((intensity, ex_range, em_range, index), msgs) \<Rightarrow>
               (let num_datfile = length files;
                    eem_stack = (replicate num_datfile (zeros (shape intensity)))[0 := intensity]
                in case read_eem_dataset_loop float rnd interp folder_path data_format
                          wavelength_alignment interpolation_method rest 1
                          (eem_stack, ex_range, em_range, [index], msgs, 0) of
                     Inl e \<Rightarrow> Inl e
                   | Inr (eem_stack', ex_range', em_range', indexes, printed, calls) \<Rightarrow>
                       Inr ((eem_stack', ex_range', em_range', indexes), printed, calls))))"

text \<open>A stand-in for \<open>eem_interpolation\<close> when the aggregator is evaluated on concrete files:
  a matrix of zeros of the target shape (the values of the real one play no part in the
  grids and shapes observed).\<close>

definition zero_interp :: interpolation where
  "zero_interp method m em ex em_target ex_target = zeros (length ex_target, length em_target)"

subsection \<open>What the files of a dataset hold\<close>

text \<open>The matrix and the grids \<open>read_eem\<close> gets from the lines of a file, whatever its path.\<close>

definition eem_of ::
  "(string \<Rightarrow> pyfloat option) \<Rightarrow> string \<Rightarrow> string list \<Rightarrow>
     (matrix \<times> int list \<times> pyfloat list) option" where
  "eem_of float data_format lines =
     (case read_eem float [] lines None data_format of
        Inl _ \<Rightarrow> None
      | Inr ((intensity, ex_range, em_range, _), _) \<Rightarrow> Some (intensity, ex_range, em_range))"

text \<open>A file shares the grid \<open>(ex, em)\<close> when \<open>read_eem\<close> returns these grids for it, with a
  matrix of their shape.\<close>

definition shares_grid ::
  "(string \<Rightarrow> pyfloat option) \<Rightarrow> string \<Rightarrow> int list \<Rightarrow> pyfloat list \<Rightarrow> string list \<Rightarrow> bool" where
  "shares_grid float data_format ex em lines =
     (case eem_of float data_format lines of
        None \<Rightarrow> False
      | Some (intensity, ex_range, em_range) \<Rightarrow>
          ex_range = ex \<and> em_range = em \<and> shape intensity = (length ex, length em))"

definition intensity_of :: "(string \<Rightarrow> pyfloat option) \<Rightarrow> string \<Rightarrow> string list \<Rightarrow> matrix" where
  "intensity_of float data_format lines =
     (case eem_of float data_format lines of
        None \<Rightarrow> []
      | Some (intensity, _, _) \<Rightarrow> intensity)"

section \<open>read\_abs\_dataset\<close>

text \<open>
  \<open>interp1d(x, y, kind=method)(x_new)\<close> of SciPy is a parameter \<open>interp1d\<close> of the
  aggregator: method, \<open>x\<close>, \<open>y\<close>, \<open>x_new\<close>, with \<open>Inl\<close> where SciPy raises.
\<close>

type_synonym interpolation1d =
  "string \<Rightarrow> pyfloat list \<Rightarrow> pyfloat list \<Rightarrow> pyfloat list \<Rightarrow> error + pyfloat list"

text \<open>The interval of an excitation grid of \<open>read_abs\<close>, which may be empty: \<open>np.max\<close> of an
  empty array raises \<open>ValueError\<close>.\<close>

definition interval_abs :: "rounding \<Rightarrow> pyfloat list \<Rightarrow> error + pyfloat" where
  "interval_abs rnd r = (if r = [] then Inl ValueError else Inr (interval_em rnd r))"

text \<open>The assignment \<open>abs_stack[n, :] = absorbance\<close>, outside any \<open>try\<close>.\<close>

definition set_row :: "pyfloat list list \<Rightarrow> nat \<Rightarrow> pyfloat list \<Rightarrow> error + pyfloat list list" where
  "set_row abs_stack n absorbance =
     (if length absorbance = length (abs_stack ! n) \<or> length absorbance = 1
      then Inr (abs_stack[n := broadcast_row (length (abs_stack ! n)) absorbance])
      else Inl ValueError)"

text \<open>The inner loop \<open>for i in range(n)\<close> that rebuilds the stack on the new grid.\<close>

fun rebuild_rows ::
  "interpolation1d \<Rightarrow> string \<Rightarrow> pyfloat list \<Rightarrow> pyfloat list \<Rightarrow> pyfloat list list \<Rightarrow>
     nat list \<Rightarrow> pyfloat list list \<Rightarrow> error + pyfloat list list" where
  "rebuild_rows interp1d method ex_range_old ex_range abs_stack [] abs_stack_new =
     Inr abs_stack_new"
| "rebuild_rows interp1d method ex_range_old ex_range abs_stack (i # is) abs_stack_new =
     (case interp1d method ex_range_old (abs_stack ! i) ex_range of
        Inl e \<Rightarrow> Inl e
      | Inr row \<Rightarrow>
          (case set_row abs_stack_new i row of
             Inl e \<Rightarrow> Inl e
           | Inr abs_stack_new' \<Rightarrow>
               rebuild_rows interp1d method ex_range_old ex_range abs_stack is abs_stack_new'))"

text \<open>
  The loop of \<open>read_abs_dataset\<close> (source lines 254-271). Unlike \<open>read_eem_dataset\<close>, the
  branch for a coarser new file interpolates the new spectrum onto the old grid and
  leaves \<open>ex_range\<close> as read, so the running grid is always that of the file read last.
\<close>

fun read_abs_dataset_loop ::
  "(string \<Rightarrow> pyfloat option) \<Rightarrow> rounding \<Rightarrow> interpolation1d \<Rightarrow>
     string \<Rightarrow> string \<Rightarrow>
     (nat \<times> nat) option \<Rightarrow> bool \<Rightarrow> string \<Rightarrow> nat \<Rightarrow> (string \<times> string list) list \<Rightarrow> nat \<Rightarrow>
     pyfloat list list \<times> pyfloat list \<times> string option list \<Rightarrow>
     error + (pyfloat list list \<times> pyfloat list \<times> string option list)" where
  "read_abs_dataset_loop float rnd interp1d folder_path data_format index_pos
       wavelength_alignment interpolation_method num_datfile [] n st = Inr st"
| "read_abs_dataset_loop float rnd interp1d folder_path data_format index_pos
       wavelength_alignment interpolation_method num_datfile ((filename, lines) # rest) n
       (abs_stack, ex_range_old, indexes) =
     (case read_abs float (folder_path @ ''/'' @ filename) lines index_pos data_format of
        Inl e \<Rightarrow> Inl e
      | Inr (absorbance, ex_range, index) \<Rightarrow>
          (case (if wavelength_alignment
                 then (case interval_abs rnd ex_range of
                         Inl e \<Rightarrow> Inl e
                       | Inr ex_interval_new \<Rightarrow>
                           (case interval_abs rnd ex_range_old of
                              Inl e \<Rightarrow> Inl e
                            | Inr ex_interval_old \<Rightarrow>
                                (case (if float_gt ex_interval_new ex_interval_old
                                       then interp1d interpolation_method ex_range absorbance
                                              ex_range_old
                                       else Inr absorbance) of
                                   Inl e \<Rightarrow> Inl e
                                 | Inr absorbance1 \<Rightarrow>
                                     (if float_lt ex_interval_new ex_interval_old
                                      then (case rebuild_rows interp1d interpolation_method
                                                   ex_range_old ex_range abs_stack [0..<n]
                                                   (replicate num_datfile
                                                      (replicate (length absorbance1) (Float 0))) of
                                              Inl e \<Rightarrow> Inl e
                                            | Inr abs_stack_new \<Rightarrow> Inr (abs_stack_new, absorbance1))
                                      else Inr (abs_stack, absorbance1)))))
                 else Inr (abs_stack, absorbance)) of
             Inl e \<Rightarrow> Inl e
           | Inr (abs_stack1, absorbance1) \<Rightarrow>
               (case set_row abs_stack1 n absorbance1 of
                  Inl e \<Rightarrow> Inl e
                | Inr abs_stack2 \<Rightarrow>
                    read_abs_dataset_loop float rnd interp1d folder_path data_format index_pos
                      wavelength_alignment interpolation_method num_datfile rest (Suc n)
                      (abs_stack2, ex_range, indexes @ [index]))))"

text \<open>\<open>read_abs_dataset\<close> returns \<open>(abs_stack, ex_range, filename_list, indexes)\<close>.\<close>

definition read_abs_dataset ::
  "(string \<Rightarrow> pyfloat option) \<Rightarrow> rounding \<Rightarrow> interpolation1d \<Rightarrow> string \<Rightarrow>
     (string \<times> string list) list \<Rightarrow>
     string \<Rightarrow> (nat \<times> nat) option \<Rightarrow> bool \<Rightarrow> string \<Rightarrow>
     error + (pyfloat list list \<times> pyfloat list \<times> string list \<times> string option list)" where
  "read_abs_dataset float rnd interp1d folder_path files data_format index_pos
       wavelength_alignment interpolation_method =
     (case files of
        [] \<Rightarrow> Inl IndexError
      | (filename, lines) # rest \<Rightarrow>
          (case read_abs float (folder_path @ ''/'' @ filename) lines index_pos data_format of
             Inl e \<Rightarrow> Inl e
           | Inr (absorbance, ex_range, index) \<Rightarrow>
               (let num_datfile = length files;
                    abs_stack = (replicate num_datfile
                                   (replicate (length absorbance) (Float 0)))[0 := absorbance]
                in case read_abs_dataset_loop float rnd interp1d folder_path data_format index_pos
                          wavelength_alignment interpolation_method num_datfile rest 1
                          (abs_stack, ex_range, [index]) of
                     Inl e \<Rightarrow> Inl e
                   | Inr (abs_stack', ex_range', indexes) \<Rightarrow>
                       Inr (abs_stack', ex_range', map fst files, indexes))))"

text \<open>A stand-in for \<open>interp1d\<close> when the aggregator is evaluated on concrete files: zeros at
  the new points.\<close>

definition zero_interp1d :: interpolation1d where
  "zero_interp1d method x y x_new = Inr (replicate (length x_new) (Float 0))"

subsection \<open>Resolution of the files of a dataset\<close>

text \<open>\<open>v\<close> is the minimum of the intervals \<open>vs\<close>: it is one of them and no larger than any.\<close>

fun float_le :: "pyfloat \<Rightarrow> pyfloat \<Rightarrow> bool" where
  "float_le (Float a) (Float b) = (a \<le> b)"
| "float_le _ _ = False"

definition is_min :: "pyfloat \<Rightarrow> pyfloat list \<Rightarrow> bool" where
  "is_min v vs = (list_ex (\<lambda>w. v = w) vs \<and> list_all (float_le v) vs)"

text \<open>The grids \<open>(ex, em)\<close> of a file. Two pairs of grids are comparable when one is at least as
  fine as the other on both axes (so neither is finer on one axis and coarser on the
  other); they are uniform when equal intervals on both axes go with equal numbers of
  points on both axes.\<close>

type_synonym grids = "int list \<times> pyfloat list"

definition comparable :: "rounding \<Rightarrow> grids \<Rightarrow> grids \<Rightarrow> bool" where
  "comparable rnd g h =
     ((float_le (interval_ex rnd (fst g)) (interval_ex rnd (fst h)) \<and>
       float_le (interval_em rnd (snd g)) (interval_em rnd (snd h))) \<or>
      (float_le (interval_ex rnd (fst h)) (interval_ex rnd (fst g)) \<and>
       float_le (interval_em rnd (snd h)) (interval_em rnd (snd g))))"

definition uniform :: "rounding \<Rightarrow> grids \<Rightarrow> grids \<Rightarrow> bool" where
  "uniform rnd g h =
     (interval_ex rnd (fst g) = interval_ex rnd (fst h) \<and>
      interval_em rnd (snd g) = interval_em rnd (snd h) \<longrightarrow>
      length (fst g) = length (fst h) \<and> length (snd g) = length (snd h))"

definition grids_of :: "matrix \<times> int list \<times> pyfloat list \<Rightarrow> grids" where
  "grids_of e = (fst (snd e), snd (snd e))"

text \<open>What is assumed of \<open>eem_interpolation\<close> where the shape of the stack is concerned: its
  result has the shape of the target grids.\<close>

definition target_shaped :: "interpolation \<Rightarrow> bool" where
  "target_shaped interp =
     (\<forall>method m em ex em_target ex_target.
        ex_target \<noteq> [] \<longrightarrow>
        shape (interp method m em ex em_target ex_target) = (length ex_target, length em_target))"

definition ex_intervals ::
  "rounding \<Rightarrow> (matrix \<times> int list \<times> pyfloat list) list \<Rightarrow> pyfloat list" where
  "ex_intervals rnd eems = map (\<lambda>g. interval_ex rnd (fst g)) (map grids_of eems)"

definition em_intervals ::
  "rounding \<Rightarrow> (matrix \<times> int list \<times> pyfloat list) list \<Rightarrow> pyfloat list" where
  "em_intervals rnd eems = map (\<lambda>g. interval_em rnd (snd g)) (map grids_of eems)"

definition ordered_by_resolution ::
  "rounding \<Rightarrow> (matrix \<times> int list \<times> pyfloat list) list \<Rightarrow> bool" where
  "ordered_by_resolution rnd eems =
     list_all (\<lambda>g. list_all (comparable rnd g) (map grids_of eems)) (map grids_of eems)"

text \<open>Every matrix has the shape of its grids.\<close>

definition conforming :: "(matrix \<times> int list \<times> pyfloat list) list \<Rightarrow> bool" where
  "conforming eems =
     list_all (\<lambda>e. shape (fst e) = (length (fst (snd e)), length (snd (snd e)))) eems"

definition equal_resolution_equal_length ::
  "rounding \<Rightarrow> (matrix \<times> int list \<times> pyfloat list) list \<Rightarrow> bool" where
  "equal_resolution_equal_length rnd eems =
     list_all (\<lambda>g. list_all (uniform rnd g) (map grids_of eems)) (map grids_of eems)"

section \<open>read\_parafac\_model\<close>

text \<open>\<open>line.strip()\<close>, the test \<open>sub in line\<close>, and \<open>line.split(sep='\t')\<close>.\<close>

definition strip :: "string \<Rightarrow> string" where
  "strip s = rev (dropWhile isspace (rev (dropWhile isspace s)))"

fun contains :: "string \<Rightarrow> string \<Rightarrow> bool" where
  "contains sub [] = (sub = [])"
| "contains sub (c # cs) = (take (length sub) (c # cs) = sub \<or> contains sub cs)"

fun split_on :: "char \<Rightarrow> string \<Rightarrow> string list" where
  "split_on sep [] = [[]]"
| "split_on sep (c # cs) =
     (if c = sep then [] # split_on sep cs
      else (c # hd (split_on sep cs)) # tl (split_on sep cs))"

text \<open>\<open>f.readline().strip()\<close> on the lines still to read: the empty string at the end of the
  file.\<close>

definition next_line :: "string list \<Rightarrow> string \<times> string list" where
  "next_line rest = (case rest of [] \<Rightarrow> ([], []) | l # r \<Rightarrow> (strip l, r))"

text \<open>
  The loops \<open>while mark in line: line = f.readline().strip(); line_count += 1\<close>, for the
  marks \<open>'#'\<close>, \<open>"Ex"\<close>, \<open>"Em"\<close> and \<open>'Score'\<close>. No mark is in the empty string, so these loops
  end at the end of the file at the latest. The progress messages that some of them print
  are left out.
\<close>

fun skip_while :: "string \<Rightarrow> string \<Rightarrow> string list \<Rightarrow> nat \<Rightarrow> string \<times> string list \<times> nat" where
  "skip_while mark line [] line_count =
     (if contains mark line then ([], [], Suc line_count) else (line, [], line_count))"
| "skip_while mark line (l # r) line_count =
     (if contains mark line then skip_while mark (strip l) r (Suc line_count)
      else (line, l # r, line_count))"

text \<open>
  The loop \<open>while '#' not in line\<close> that fills \<open>info_dict\<close> (source lines 354-361). At the end
  of the file the line stays empty and the loop does not end: the function is partial.
\<close>

partial_function (option) read_info ::
  "string \<Rightarrow> string list \<Rightarrow> nat \<Rightarrow> (string \<rightharpoonup> string) \<Rightarrow>
     (string \<times> string list \<times> nat \<times> (string \<rightharpoonup> string)) option" where
  "read_info line rest line_count info_dict =
     (if \<not> contains ''#'' line
      then (let phrase = split_on (CHR 0x09) line;
                info_dict' = info_dict(hd phrase \<mapsto> (if length phrase > 1 then phrase ! 1 else []))
            in read_info (fst (next_line rest)) (snd (next_line rest)) (Suc line_count) info_dict')
      else Some (line, rest, line_count, info_dict))"

text \<open>
  A pandas table as far as the function touches it: the two index columns, the column
  labels, the cells, the names of the index levels. \<open>pd.read_csv\<close> labels the columns by
  position; the function sets names. \<open>pd.read_csv(filepath, sep="\t", header=None,
  index_col=[0, 1], skiprows=s, nrows=n)\<close> and the conversion of the second index level
  by \<open>pd.to_datetime\<close> belong to pandas: they are the parameters \<open>read_csv\<close> (file, \<open>s\<close>, \<open>n\<close>)
  and \<open>to_datetime\<close>, with \<open>None\<close> where pandas raises.
\<close>

datatype label = Position nat | Name string

record dataframe =
  df_index :: "(string \<times> string) list"
  df_columns :: "label list"
  df_values :: "string list list"
  df_index_names :: "string list"

text \<open>\<open>df.columns = labels\<close> raises \<open>ValueError\<close> unless there is one label per column.\<close>

definition set_columns :: "dataframe \<Rightarrow> label list \<Rightarrow> error + dataframe" where
  "set_columns df labels =
     (if length labels = length (df_columns df) then Inr (df\<lparr>df_columns := labels\<rparr>)
      else Inl ValueError)"

text \<open>\<open>['component {rank}'.format(rank=r + 1) for r in range(n)]\<close>.\<close>

definition digit_char :: "nat \<Rightarrow> char" where
  "digit_char d = ''0123456789'' ! d"

fun str_nat :: "nat \<Rightarrow> string" where
  "str_nat n =
     (if n < 10 then [digit_char n]
      else str_nat (n div 10) @ [digit_char (n mod 10)])"

definition component_labels :: "nat \<Rightarrow> label list" where
  "component_labels n = map (\<lambda>r. Name (''component '' @ str_nat (r + 1))) [0..<n]"

text \<open>
  The last loop (source lines 395-405). The next line is read only inside
  \<open>if 'end' in line\<close>: on a line with \<open>'#'\<close> and without \<open>'end'\<close> the loop runs again on the same
  line.
\<close>

partial_function (option) read_end ::
  "(string list \<Rightarrow> nat \<Rightarrow> nat \<Rightarrow> dataframe option) \<Rightarrow> (dataframe \<Rightarrow> dataframe option) \<Rightarrow>
     string list \<Rightarrow> label list \<Rightarrow> nat \<Rightarrow> nat \<Rightarrow> string \<Rightarrow> string list \<Rightarrow> dataframe option \<Rightarrow>
     (error + dataframe option) option" where
  "read_end read_csv to_datetime lines component_label line_count_score line_count
       line rest score_df =
     (if contains ''#'' line
      then (if contains ''end'' line
            then (case read_csv lines line_count_score (line_count - line_count_score) of
                    None \<Rightarrow> Some (Inl PandasError)
                  | Some df \<Rightarrow>
                      (case to_datetime df of
                         None \<Rightarrow> Some (Inl PandasError)
                       | Some df1 \<Rightarrow>
                           (case set_columns df1 component_label of
                              Inl e \<Rightarrow> Some (Inl e)
                            | Inr df2 \<Rightarrow>
                                read_end read_csv to_datetime lines component_label
                                  line_count_score line_count
                                  (fst (next_line rest)) (snd (next_line rest))
                                  (Some (df2\<lparr>df_index_names := [''type'', ''time'']\<rparr>)))))
            else read_end read_csv to_datetime lines component_label line_count_score
                   line_count line rest score_df)
      else Some (Inr score_df))"

text \<open>
  \<open>read_parafac_model\<close> on the lines of the file: \<open>None\<close> when it does not return, otherwise
  the exception or \<open>(ex_df, em_df, score_df, info_dict)\<close>. \<open>line_count_spectra_start\<close> is
  bound in the body of the third loop only.
\<close>

definition read_parafac_model ::
  "(string list \<Rightarrow> nat \<Rightarrow> nat \<Rightarrow> dataframe option) \<Rightarrow> (dataframe \<Rightarrow> dataframe option) \<Rightarrow>
     string list \<Rightarrow>
     (error + (dataframe \<times> dataframe \<times> dataframe option \<times> (string \<rightharpoonup> string))) option" where
  "read_parafac_model read_csv to_datetime lines =
     (case skip_while ''#'' (fst (next_line lines)) (snd (next_line lines)) 0 of
        (line1, rest1, count1) \<Rightarrow>
     (case read_info line1 rest1 count1 Map.empty of
        None \<Rightarrow> None
        | Some (line2, rest2, count2, info_dict) \<Rightarrow>
     (case skip_while ''#'' line2 rest2 count2 of
        (line3, rest3, count3) \<Rightarrow>
     (if count3 = count2 then Some (Inl UnboundLocalError)
      else
     (let line_count_spectra_start = count3 - 1 in
     (case skip_while ''Ex'' line3 rest3 count3 of
        (line4, rest4, line_count_ex) \<Rightarrow>
     (case read_csv lines (line_count_spectra_start + 1)
      (line_count_ex - line_count_spectra_start - 1) of
        None \<Rightarrow> Some (Inl PandasError)
        | Some ex_raw \<Rightarrow>
     (let component_label = component_labels (length (df_columns ex_raw)) in
     (case set_columns ex_raw component_label of
        Inl e \<Rightarrow> Some (Inl e)
        | Inr ex_lab \<Rightarrow>
     (let ex_df = ex_lab\<lparr>df_index_names := [''type'', ''wavelength'']\<rparr> in
     (case skip_while ''Em'' line4 rest4 line_count_ex of
        (line5, rest5, line_count_em) \<Rightarrow>
     (case read_csv lines line_count_ex (line_count_em - line_count_ex) of
        None \<Rightarrow> Some (Inl PandasError)
        | Some em_raw \<Rightarrow>
     (case set_columns em_raw component_label of
        Inl e \<Rightarrow> Some (Inl e)
        | Inr em_lab \<Rightarrow>
     (let em_df = em_lab\<lparr>df_index_names := [''type'', ''wavelength'']\<rparr> in
     (case skip_while ''#'' line5 rest5 line_count_em of
        (line6, rest6, line_count_score) \<Rightarrow>
     (case skip_while ''Score'' line6 rest6 line_count_score of
        (line7, rest7, count7) \<Rightarrow>
     (case read_end read_csv to_datetime lines component_label line_count_score count7
             line7 rest7 None of
        None \<Rightarrow> None
      | Some (Inl e) \<Rightarrow> Some (Inl e)
      | Some (Inr score_df) \<Rightarrow> Some (Inr (ex_df, em_df, score_df, info_dict)))))))))))))))))))"

text \<open>Tab-separated lines, and a model file with one metadata line, two components, two
  excitation rows, two emission rows and three score rows, followed by the given last
  lines.\<close>

definition tsv :: "string list \<Rightarrow> string" where
  "tsv cells = (case cells of [] \<Rightarrow> [] | f # fs \<Rightarrow> f @ concat (map (\<lambda>g. CHR 0x09 # g) fs))"

definition parafac_file :: "string list \<Rightarrow> string list" where
  "parafac_file ending =
     [''#'', ''# Fluorescence Model'', ''#'', tsv [''name'', ''demo''], ''#'',
      ''# Excitation/Emission (Ex, Em), wavelength [nm], component[n] (intensity)'', ''#'',
      tsv [''Ex'', ''250'', ''0.1'', ''0.2''], tsv [''Ex'', ''260'', ''0.3'', ''0.4''],
      tsv [''Em'', ''300'', ''0.5'', ''0.6''], tsv [''Em'', ''310'', ''0.7'', ''0.8''],
      ''#'', ''# Score'', ''#'',
      tsv [''Score'', ''2024-01-01'', ''1'', ''2''], tsv [''Score'', ''2024-01-02'', ''3'', ''4''],
      tsv [''Score'', ''2024-01-03'', ''5'', ''6'']] @ ending"

section \<open>Properties of read\_eem\<close>

lemma ncols_snoc: "data \<noteq> [] \<Longrightarrow> ncols (data @ [d]) = ncols data"
  by (cases data) (simp_all add: ncols_def)

lemma length_transpose_rows: "length (transpose_rows n rows) = n"
  by (simp add: transpose_rows_def)

lemma ncols_transpose_rows: "0 < n \<Longrightarrow> ncols (transpose_rows n rows) = length rows"
  by (cases n) (simp_all add: transpose_rows_def ncols_def upt_conv_Cons del: upt_Suc)

lemma nth_transpose_rows:
  "i < n \<Longrightarrow> j < length rows \<Longrightarrow> transpose_rows n rows ! i ! j = rows ! j ! i"
  by (simp add: transpose_rows_def)

text \<open>On lines that are all acceptable the row loop collects the emission value and the
  intensities of every data line, in file order, and prints nothing.\<close>

lemma read_eem_rows_well_formed:
  "list_all (eem_line_ok float n) ls \<Longrightarrow> data \<noteq> [] \<Longrightarrow> ncols data = n \<Longrightarrow>
   read_eem_rows float ls idx data =
     Inr (idx @ map (line_em float) (filter (is_data_line float) ls),
          data @ map (line_values float) (filter (is_data_line float) ls), [])"
proof (induction ls arbitrary: idx data)
  case Nil
  then show ?case by simp
next
  case (Cons line rest)
  from Cons.prems(1) have ok: "eem_line_ok float n line"
    and rest: "list_all (eem_line_ok float n) rest"
    by simp_all
  show ?case
  proof (cases "py_split line")
    case Nil
    with ok show ?thesis by (simp add: eem_line_ok_def)
  next
    case (Cons initial tokens)
    note sp = this
    show ?thesis
    proof (cases "float initial")
      case None
      with sp Cons.IH[OF rest Cons.prems(2,3)] show ?thesis
        by (simp add: is_data_line_def)
    next
      case (Some v)
      with ok sp obtain vs where vs: "map_float float tokens = Some vs" "length vs = n"
        by (auto simp: eem_line_ok_def split: option.splits)
      have "ncols (data @ [vs]) = n" using Cons.prems by (simp add: ncols_snoc)
      from Cons.IH[OF rest _ this, of "idx @ [v]"] sp Some vs Cons.prems show ?thesis
        by (simp add: is_data_line_def line_em_def line_values_def)
    qed
  qed
qed

text \<open>What \<open>read_eem\<close> returns on a well-formed file.\<close>

lemma read_eem_well_formed:
  assumes "eem_well_formed float lines"
  shows "read_eem float file_path lines index_pos ''aqualog'' =
     Inr ((transpose_rows (length (eem_header lines)) (eem_value_rows float lines),
           (if eem_header lines ! 1 < eem_header lines ! 0
            then rev (eem_header lines) else eem_header lines),
           (if float_gt (eem_em_column float lines ! 0) (eem_em_column float lines ! 1)
            then rev (eem_em_column float lines) else eem_em_column float lines),
           get_index file_path index_pos), [])"
proof -
  let ?n = "length (eem_header lines)"
  from assms have n2: "2 \<le> ?n" and k2: "2 \<le> length (filter (is_data_line float) (tl lines))"
    and ok: "list_all (eem_line_ok float ?n) (tl lines)"
    by (simp_all add: eem_well_formed_def)
  have "read_eem_rows float (tl lines) [] [replicate ?n (Float 0)] =
      Inr (eem_em_column float lines, replicate ?n (Float 0) # eem_value_rows float lines, [])"
    using read_eem_rows_well_formed[OF ok, of "[replicate ?n (Float 0)]" "[]"]
    by (simp add: ncols_def eem_em_column_def eem_value_rows_def)
  with n2 k2 show ?thesis
    by (simp add: read_eem_def Let_def eem_header_def eem_em_column_def eem_value_rows_def)
qed

text \<open>
  Claim C3, as the code has it. The claim gives the shape as (emission, excitation); the
  transposition makes it the other way round, as the source comment says (emission along
  the horizontal axis). For every well-formed EEM file \<open>read_eem\<close> returns, the intensity
  matrix has one row per excitation wavelength and one column per emission wavelength:
  its shape is \<open>(len(ex_range), len(em_range))\<close>, and its entry at (excitation \<open>i\<close>,
  emission \<open>j\<close>) is the intensity that data line \<open>j\<close> of the file holds in column \<open>i\<close>.
\<close>

theorem read_eem_shape:
  assumes "eem_well_formed float lines"
  shows "\<exists>intensity ex_range em_range index printed.
     read_eem float file_path lines index_pos ''aqualog'' =
       Inr ((intensity, ex_range, em_range, index), printed) \<and>
     shape intensity = (length ex_range, length em_range) \<and>
     length ex_range = length (eem_header lines) \<and>
     length em_range = length (eem_value_rows float lines) \<and>
     (\<forall>i<length ex_range. \<forall>j<length em_range.
        intensity ! i ! j = eem_value_rows float lines ! j ! i)"
proof -
  from assms have n2: "2 \<le> length (eem_header lines)"
    by (simp add: eem_well_formed_def)
  then have n0: "0 < length (eem_header lines)" by linarith
  show ?thesis
    unfolding read_eem_well_formed[OF assms]
    by (simp add: shape_def length_transpose_rows ncols_transpose_rows[OF n0]
        nth_transpose_rows eem_em_column_def eem_value_rows_def)
qed

theorem read_eem_shape_witness:
  "eem_well_formed dec_float [''250 260'', ''300 1 2'', ''310 3 4'', ''320 5 6''] \<and>
   (\<exists>intensity ex_range em_range index printed.
     read_eem dec_float ''s_PEM.dat''
        [''250 260'', ''300 1 2'', ''310 3 4'', ''320 5 6''] None ''aqualog'' =
       Inr ((intensity, ex_range, em_range, index), printed) \<and>
     shape intensity = (length ex_range, length em_range) \<and>
     length ex_range = 2 \<and> length em_range = 3)"
proof -
  have wf: "eem_well_formed dec_float [''250 260'', ''300 1 2'', ''310 3 4'', ''320 5 6'']"
    by code_simp
  have "length (eem_header [''250 260'', ''300 1 2'', ''310 3 4'', ''320 5 6'']) = 2"
    by code_simp
  moreover have
    "length (eem_value_rows dec_float [''250 260'', ''300 1 2'', ''310 3 4'', ''320 5 6'']) = 3"
    by code_simp
  ultimately show ?thesis
    using wf read_eem_shape[OF wf, of "''s_PEM.dat''" None] by auto
qed

text \<open>Claim C3 as stated fails: a well-formed file with two excitation and three emission
  wavelengths gives a matrix of shape \<open>(2, 3)\<close>, not \<open>(len(em_range), len(ex_range)) = (3, 2)\<close>.\<close>

theorem read_eem_shape_counterexample:
  "eem_well_formed dec_float [''250 260'', ''300 1 2'', ''310 3 4'', ''320 5 6''] \<and>
   read_eem dec_float ''s_PEM.dat''
      [''250 260'', ''300 1 2'', ''310 3 4'', ''320 5 6''] None ''aqualog'' =
     Inr (([[Float 1, Float 3, Float 5], [Float 2, Float 4, Float 6]],
           [250, 260], [Float 300, Float 310, Float 320], None), []) \<and>
   shape [[Float 1, Float 3, Float 5], [Float 2, Float 4, Float 6]] \<noteq>
     (length [Float 300, Float 310, Float 320], length [250, 260 :: int])"
  by code_simp


text \<open>When the row loop stops at a line of the wrong width, the emission list holds one value
  for every full row taken before it, one for every half-parsed line before it, and one
  for the line it stopped at; \<open>data\<close> has grown by the full rows only.\<close>

lemma read_eem_rows_abort:
  "read_eem_rows float ls idx data = Inr (idx', data', printed) \<Longrightarrow> printed \<noteq> [] \<Longrightarrow>
   data \<noteq> [] \<Longrightarrow>
   length idx' = length idx
        + length (filter (full_row float (ncols data)) (takeWhile (\<lambda>l. \<not> width_mismatch float (ncols data) l) ls))
        + length (filter (half_parsed float) (takeWhile (\<lambda>l. \<not> width_mismatch float (ncols data) l) ls)) + 1
   \<and> length data' = length data
        + length (filter (full_row float (ncols data)) (takeWhile (\<lambda>l. \<not> width_mismatch float (ncols data) l) ls))"
proof (induction ls arbitrary: idx data)
  case Nil
  then show ?case by simp
next
  case (Cons line rest)
  show ?case
  proof (cases "py_split line")
    case Nil
    with Cons.prems show ?thesis by simp
  next
    case (Cons initial tokens)
    note sp = this
    show ?thesis
    proof (cases "float initial")
      case None
      with sp Cons.prems Cons.IH[of idx data] show ?thesis
        by (simp add: width_mismatch_def full_row_def half_parsed_def)
    next
      case (Some v)
      note fv = this
      show ?thesis
      proof (cases "map_float float tokens")
        case None
        with sp fv Cons.prems Cons.IH[of "idx @ [v]" data] show ?thesis
          by (simp add: width_mismatch_def full_row_def half_parsed_def)
      next
        case (Some vs)
        show ?thesis
        proof (cases "length vs = ncols data")
          case True
          with sp fv Some Cons.prems Cons.IH[of "idx @ [v]" "data @ [vs]"] show ?thesis
            by (simp add: width_mismatch_def full_row_def half_parsed_def ncols_snoc)
        next
          case False
          with sp fv Some Cons.prems show ?thesis
            by (auto simp add: width_mismatch_def full_row_def half_parsed_def)
        qed
      qed
    qed
  qed
qed

text \<open>
  Claim C10, as the code has it. When \<open>read_eem\<close> leaves the row loop at a line of the wrong
  width and returns, the emission value of that line is already in the emission list. The
  returned emission grid is longer than the emission axis of the intensity matrix by one,
  plus one for every earlier line whose first token is a number and whose later tokens
  are not all numbers: such a line leaves its emission value behind as well. Without
  such lines the difference is exactly one.
\<close>

theorem read_eem_abort_grid_length:
  assumes "read_eem float file_path lines index_pos ''aqualog'' =
             Inr ((intensity, ex_range, em_range, index), printed)"
    and "printed \<noteq> []"
  shows "length em_range = ncols intensity + 1 +
           length (filter (half_parsed float)
             (takeWhile (\<lambda>l. \<not> width_mismatch float (length (eem_header lines)) l) (tl lines)))"
proof -
  let ?n = "length (eem_header lines)"
  let ?seed = "[replicate ?n (Float 0)]"
  from assms(1) obtain idx data where
    rows: "read_eem_rows float (tl lines) [] ?seed = Inr (idx, data, printed)"
    and n2: "2 \<le> ?n"
    and int: "intensity = transpose_rows ?n (tl data)"
    and em: "length em_range = length idx"
    by (auto simp: read_eem_def Let_def eem_header_def split: sum.splits if_splits)
  have nc: "ncols ?seed = ?n" by (simp add: ncols_def)
  from read_eem_rows_abort[OF rows assms(2)] nc
  have "length idx = length (tl data) + 1 +
           length (filter (half_parsed float)
             (takeWhile (\<lambda>l. \<not> width_mismatch float ?n l) (tl lines)))"
    by simp
  moreover from n2 have "0 < ?n" by linarith
  then have "ncols intensity = length (tl data)"
    unfolding int by (rule ncols_transpose_rows)
  ultimately show ?thesis using em by simp
qed

theorem read_eem_abort_grid_length_witness:
  "read_eem dec_float ''s_PEM.dat'' [''250 260'', ''300 1 2'', ''310 3 4'', ''320 5 6 7''] None ''aqualog'' =
     Inr (([[Float 1, Float 3], [Float 2, Float 4]], [250, 260],
           [Float 300, Float 310, Float 320], None), [ColumnReport 6 3]) \<and>
   length [Float 300, Float 310, Float 320] =
     ncols [[Float 1, Float 3], [Float 2, Float 4]] + 1 + 0"
proof -
  have r: "read_eem dec_float ''s_PEM.dat'' [''250 260'', ''300 1 2'', ''310 3 4'', ''320 5 6 7''] None ''aqualog'' =
     Inr (([[Float 1, Float 3], [Float 2, Float 4]], [250, 260],
           [Float 300, Float 310, Float 320], None), [ColumnReport 6 3])"
    by code_simp
  have h: "length (filter (half_parsed dec_float)
             (takeWhile (\<lambda>l. \<not> width_mismatch dec_float (length (eem_header [''250 260'', ''300 1 2'', ''310 3 4'', ''320 5 6 7''])) l) (tl [''250 260'', ''300 1 2'', ''310 3 4'', ''320 5 6 7'']))) = 0"
    by code_simp
  show ?thesis
    using r read_eem_abort_grid_length[OF r] h by simp
qed

text \<open>Claim C10 as stated fails: after a half-parsed line the grid has two entries more than
  the matrix has columns, not exactly one.\<close>

theorem read_eem_abort_grid_length_counterexample:
  "read_eem dec_float ''s_PEM.dat'' [''250 260'', ''300 x 1'', ''310 1 2'', ''320 1 2 3''] None ''aqualog'' =
     Inr (([[Float 1], [Float 2]], [250, 260],
           [Float 300, Float 310, Float 320], None), [ColumnReport 4 3]) \<and>
   length [Float 300, Float 310, Float 320] \<noteq> ncols [[Float 1], [Float 2]] + 1"
  by code_simp

text \<open>
  Claim C4: at a line of the wrong width \<open>read_eem\<close> stops the row loop, reports the expected
  and the detected column counts, and returns the rows read so far. On the file below the
  header has two columns and the third data line has three values. The loop stops and the
  two rows are returned, but the number printed as "number of columns suggested by your
  header" is \<open>np.size(data) = 6\<close>, the count of all entries of \<open>data\<close> with its row of zeros,
  not 2. When the first data line is the one of the wrong width, the emission list has a
  single entry and \<open>em_range[1]\<close> raises \<open>IndexError\<close>.
\<close>

theorem read_eem_column_report_failing_input:
  "read_eem dec_float ''s_PEM.dat'' [''250 260'', ''300 1 2'', ''310 3 4'', ''320 5 6 7''] None ''aqualog'' =
     Inr (([[Float 1, Float 3], [Float 2, Float 4]], [250, 260],
           [Float 300, Float 310, Float 320], None), [ColumnReport 6 3]) \<and>
   length (eem_header [''250 260'', ''300 1 2'', ''310 3 4'', ''320 5 6 7'']) = 2 \<and>
   read_eem dec_float ''s_PEM.dat'' [''250 260'', ''300 1 2 3'', ''310 3 4''] None ''aqualog'' =
     Inl IndexError"
  by code_simp


lemma float_lt_gt: "float_lt x y = float_gt y x"
  by (cases x; cases y) simp_all

text \<open>
  What \<open>read_eem\<close> does with a descending emission column, for every well-formed file:
  \<open>np.flipud\<close> is applied to \<open>em_range\<close> (and to \<open>ex_range\<close>) and to nothing else. The
  emission grid returned is the column reversed, strictly ascending; the matrix is the
  transposed table in the row order of the file; an excitation grid whose first value does
  not exceed its second is returned as the header gives it.
\<close>

lemma read_eem_flips_grids_only:
  assumes "eem_well_formed float lines"
    and "sorted_wrt float_gt (eem_em_column float lines)"
  shows "read_eem float file_path lines index_pos ''aqualog'' =
     Inr ((transpose_rows (length (eem_header lines)) (eem_value_rows float lines),
           (if eem_header lines ! 1 < eem_header lines ! 0
            then rev (eem_header lines) else eem_header lines),
           rev (eem_em_column float lines),
           get_index file_path index_pos), []) \<and>
     sorted_wrt float_lt (rev (eem_em_column float lines))"
proof -
  from assms(1) have "2 \<le> length (eem_em_column float lines)"
    by (simp add: eem_well_formed_def eem_em_column_def)
  then have "0 < (1::nat)" "1 < length (eem_em_column float lines)" by simp_all
  with assms(2) have "float_gt (eem_em_column float lines ! 0) (eem_em_column float lines ! 1)"
    using sorted_wrt_nth_less by blast
  moreover have "sorted_wrt float_lt (rev (eem_em_column float lines))"
    using assms(2) by (simp add: sorted_wrt_rev float_lt_gt)
  ultimately show ?thesis
    by (simp add: read_eem_well_formed[OF assms(1)])
qed

text \<open>
  Claim C2: for a file whose emission grid is stored descending, \<open>read_eem\<close> reverses the
  emission grid together with the intensity values along the emission axis. The file
  below has the emission values 310, 300, in this order, with the intensities 1, 2 on the
  line of 310 and 3, 4 on the line of 300. \<open>read_eem\<close> returns the emission grid 300, 310
  and the matrix in the order of the file: the first entry of each row of the matrix,
  which stands under the first emission value 300, holds the intensities 1 and 2 measured
  at 310. The matrix with the emission axis reversed as the grid is, which the claim
  describes, is another one. The code sets out to put a descending emission axis in
  ascending order and leaves the matrix out; \<open>read_eem_dataset\<close> passes \<open>em_range\<close> on to the
  interpolation as it is.
\<close>

theorem read_eem_descending_emission_failing_input:
  "read_eem dec_float ''s_PEM.dat'' [''250 260'', ''310 1 2'', ''300 3 4''] None ''aqualog'' =
     Inr (([[Float 1, Float 3], [Float 2, Float 4]], [250, 260],
           [Float 300, Float 310], None), []) \<and>
   eem_em_column dec_float [''250 260'', ''310 1 2'', ''300 3 4''] = [Float 310, Float 300] \<and>
   line_em dec_float ''310 1 2'' = Float 310 \<and>
   line_values dec_float ''310 1 2'' = [Float 1, Float 2] \<and>
   [Float 300, Float 310] ! 0 = Float 300 \<and>
   map (\<lambda>row. row ! 0) [[Float 1, Float 3], [Float 2, Float 4]] = [Float 1, Float 2] \<and>
   [[Float 1, Float 3], [Float 2, Float 4]] =
     transpose_rows 2 (eem_value_rows dec_float [''250 260'', ''310 1 2'', ''300 3 4'']) \<and>
   transpose_rows 2 (rev (eem_value_rows dec_float [''250 260'', ''310 1 2'', ''300 3 4''])) =
     [[Float 3, Float 1], [Float 4, Float 2]] \<and>
   [[Float 1, Float 3], [Float 2, Float 4]] \<noteq> [[Float 3, Float 1], [Float 4, Float 2]]"
  by code_simp

section \<open>Properties of read\_abs\<close>

lemma read_abs_lines_ok:
  "list_all (abs_line_ok float) ls \<Longrightarrow>
   read_abs_lines float ls idx data =
     Inr (idx @ map (line_em float) ls, data @ map (abs_line_value float) ls)"
proof (induction ls arbitrary: idx data)
  case Nil
  then show ?case by simp
next
  case (Cons line rest)
  then show ?case
    by (auto simp: abs_line_ok_def line_em_def abs_line_value_def split: list.splits option.splits)
qed

text \<open>
  Claim C7. For every absorbance file whose lines each hold a wavelength, or a wavelength
  and a value, \<open>read_abs\<close> returns: a line with only the wavelength token contributes NaN, a
  line with a second token contributes that value, and both the wavelength list and the
  absorbance list come back in reverse file order.
\<close>

theorem read_abs_values:
  assumes "list_all (abs_line_ok float) lines"
  shows "read_abs float file_path lines index_pos ''aqualog'' =
     Inr (rev (map (abs_line_value float) lines), rev (map (line_em float) lines),
          get_index file_path index_pos)"
  using read_abs_lines_ok[OF assms, of "[]" "[]"]
  by (simp add: read_abs_def rev_map)

theorem read_abs_values_witness:
  "list_all (abs_line_ok dec_float) [''540.0 0.25'', ''550.0'', ''560.0 0.32''] \<and>
   read_abs dec_float ''s_ABS.dat'' [''540.0 0.25'', ''550.0'', ''560.0 0.32''] None ''aqualog'' =
     Inr ([Float 0.32, NaN, Float 0.25], [Float 560, Float 550, Float 540], None)"
proof -
  have ok: "list_all (abs_line_ok dec_float) [''540.0 0.25'', ''550.0'', ''560.0 0.32'']"
    by code_simp
  have v: "rev (map (abs_line_value dec_float) [''540.0 0.25'', ''550.0'', ''560.0 0.32'']) =
     [Float 0.32, NaN, Float 0.25]"
    by code_simp
  have w: "rev (map (line_em dec_float) [''540.0 0.25'', ''550.0'', ''560.0 0.32'']) =
     [Float 560, Float 550, Float 540]"
    by code_simp
  have g: "get_index ''s_ABS.dat'' None = None" by code_simp
  show ?thesis
    using ok read_abs_values[OF ok, of "''s_ABS.dat''" None] unfolding v w g by simp
qed

text \<open>
  Claim C6: with a format tag other than \<open>'aqualog'\<close> the readers warn and still return.
  Neither does: \<open>read_eem\<close> reads the unbound \<open>data\<close> and \<open>read_abs\<close> returns the unbound
  \<open>absorbance\<close>, so both raise \<open>UnboundLocalError\<close>; the \<open>Warning\<close> object is built and
  dropped (in \<open>read_eem\<close> on the wrong \<open>if\<close>), never issued.
\<close>

theorem unsupported_format_failing_input:
  "read_eem dec_float ''s_PEM.dat'' [''250 260'', ''300 1 2'', ''310 3 4''] None ''fluoromax'' =
     Inl UnboundLocalError \<and>
   read_abs dec_float ''s_ABS.dat'' [''540.0 0.25'', ''550.0''] None ''fluoromax'' =
     Inl UnboundLocalError"
  by code_simp

section \<open>Properties of read\_reference\_from\_text\<close>

lemma reference_lines_ok:
  "list_all (ref_line_ok float) ls \<Longrightarrow>
   reference_lines float ls acc = Inr (acc @ map (line_em float) (filter has_token ls))"
proof (induction ls arbitrary: acc)
  case Nil
  then show ?case by simp
next
  case (Cons line rest)
  then show ?case
    by (auto simp: ref_line_ok_def line_em_def has_token_def split: list.splits option.splits)
qed

text \<open>A later line that has a token which is not a number ends the loop with \<open>ValueError\<close>,
  whatever was read before it and whatever follows.\<close>

lemma reference_lines_not_ok:
  "\<not> list_all (ref_line_ok float) ls \<Longrightarrow> reference_lines float ls acc = Inl ValueError"
proof (induction ls arbitrary: acc)
  case Nil
  then show ?case by simp
next
  case (Cons line rest)
  show ?case
  proof (cases "py_split line")
    case Nil
    then have "ref_line_ok float line" by (simp add: ref_line_ok_def)
    with Cons.prems have "\<not> list_all (ref_line_ok float) rest" by simp
    from Cons.IH[OF this] Nil show ?thesis by simp
  next
    case split: (Cons t ts)
    show ?thesis
    proof (cases "float t")
      case None
      with split show ?thesis by simp
    next
      case (Some v)
      with split have "ref_line_ok float line" by (simp add: ref_line_ok_def)
      with Cons.prems have "\<not> list_all (ref_line_ok float) rest" by simp
      from Cons.IH[OF this] split Some show ?thesis by simp
    qed
  qed
qed

text \<open>
  Claim C8, as the code has it. The claim has every line that fails to parse skipped; the
  \<open>except\<close> clause names \<open>IndexError\<close> only. For every reference file whose first line has a
  token, the reader returns the first token of the first line as the header; when each
  later line has no token or starts with a number, it returns one float per line that has
  a token, the lines without token (blank lines, the end of the file) being passed over,
  so that the length of the list is the number of numeric data lines; and when some later
  line starts with a token that is not a number, that line is not skipped: the reader
  raises \<open>ValueError\<close>.
\<close>

theorem read_reference_skips_blank_lines:
  assumes "has_token (readline lines)"
  shows "read_reference_from_text float lines =
     (if list_ex (\<lambda>line. has_token line \<and> float (hd (py_split line)) = None) (tl lines)
      then Inl ValueError
      else Inr (map (line_em float) (filter has_token (tl lines)),
                hd (py_split (readline lines)))) \<and>
     length (map (line_em float) (filter has_token (tl lines))) =
       length (filter has_token (tl lines))"
proof -
  from assms obtain header ts where h: "py_split (readline lines) = header # ts"
    by (cases "py_split (readline lines)") (simp_all add: has_token_def)
  have bad: "list_ex (\<lambda>line. has_token line \<and> float (hd (py_split line)) = None) ls =
        (\<not> list_all (ref_line_ok float) ls)" for ls
    by (induction ls) (auto simp: ref_line_ok_def has_token_def split: list.splits)
  show ?thesis
  proof (cases "list_all (ref_line_ok float) (tl lines)")
    case True
    from reference_lines_ok[OF True, of "[]"] True h show ?thesis
      by (simp add: read_reference_from_text_def bad)
  next
    case False
    from reference_lines_not_ok[OF False, of "[]"] False h show ?thesis
      by (simp add: read_reference_from_text_def bad)
  qed
qed

theorem read_reference_skips_blank_lines_witness:
  "has_token (readline [''DOC (mg/L)'', ''1.0'', ''2.5'', '''', ''4.8'', '' '']) \<and>
   read_reference_from_text dec_float [''DOC (mg/L)'', ''1.0'', ''2.5'', '''', ''4.8'', '' ''] =
     Inr ([Float 1, Float 2.5, Float 4.8], ''DOC'') \<and>
   has_token (readline [''DOC (mg/L)'', ''1.0'', '''', ''n/a'', ''4.8'']) \<and>
   read_reference_from_text dec_float [''DOC (mg/L)'', ''1.0'', '''', ''n/a'', ''4.8''] =
     Inl ValueError"
proof -
  let ?f = "[''DOC (mg/L)'', ''1.0'', ''2.5'', '''', ''4.8'', '' '']"
  let ?g = "[''DOC (mg/L)'', ''1.0'', '''', ''n/a'', ''4.8'']"
  have a: "has_token (readline ?f)" by code_simp
  have b: "\<not> list_ex (\<lambda>line. has_token line \<and> dec_float (hd (py_split line)) = None) (tl ?f)"
    by code_simp
  have c: "map (line_em dec_float) (filter has_token (tl ?f)) = [Float 1, Float 2.5, Float 4.8]"
    by code_simp
  have d: "hd (py_split (readline ?f)) = ''DOC''" by code_simp
  have a': "has_token (readline ?g)" by code_simp
  have b': "list_ex (\<lambda>line. has_token line \<and> dec_float (hd (py_split line)) = None) (tl ?g)"
    by code_simp
  have "read_reference_from_text dec_float ?f = Inr ([Float 1, Float 2.5, Float 4.8], ''DOC'')"
    using read_reference_skips_blank_lines[OF a, of dec_float] b unfolding c d by simp
  moreover have "read_reference_from_text dec_float ?g = Inl ValueError"
    using read_reference_skips_blank_lines[OF a', of dec_float] b' by simp
  ultimately show ?thesis using a a' by blast
qed

text \<open>Claim C8 as stated fails: a later line whose first token is not a number is not
  skipped, \<open>float\<close> raises \<open>ValueError\<close> and the reader with it.\<close>

theorem read_reference_skips_blank_lines_counterexample:
  "read_reference_from_text dec_float [''DOC (mg/L)'', ''1.0'', ''n/a'', ''4.8''] = Inl ValueError"
  by code_simp


section \<open>Properties of read\_eem\_dataset\<close>

lemma float_gt_irrefl: "\<not> float_gt x x"
  by (cases x) simp_all

lemma float_lt_irrefl: "\<not> float_lt x x"
  by (cases x) simp_all

text \<open>The path and \<open>index_pos\<close> decide the index only.\<close>

lemma read_eem_eem_of_Some:
  "eem_of float data_format lines = Some (m, ex, em) \<Longrightarrow>
   \<exists>msgs. read_eem float p lines ip data_format = Inr ((m, ex, em, get_index p ip), msgs)"
  by (auto simp: eem_of_def read_eem_def Let_def get_index_def split: sum.splits if_splits)

lemma read_eem_eem_of_None:
  "eem_of float data_format lines = None \<Longrightarrow>
   \<exists>e. read_eem float p lines ip data_format = Inl e"
  by (auto simp: eem_of_def read_eem_def Let_def split: sum.splits if_splits)

text \<open>Whatever \<open>read_eem\<close> returns has grids of at least two points and a matrix with one row
  per excitation wavelength, all rows of one length.\<close>

lemma eem_of_props:
  assumes "eem_of float data_format lines = Some (m, ex, em)"
  shows "2 \<le> length ex" and "2 \<le> length em" and "length m = length ex"
    and "\<forall>r\<in>set m. length r = ncols m"
proof -
  from assms obtain idx :: "pyfloat list" and data :: matrix where
    n2: "2 \<le> length (eem_header lines)" and em: "length em = length idx" "2 \<le> length idx"
    and ex: "length ex = length (eem_header lines)"
    and m: "m = transpose_rows (length (eem_header lines)) (tl data)"
    by (auto simp: eem_of_def read_eem_def Let_def eem_header_def split: sum.splits if_splits)
  show "2 \<le> length ex" using n2 ex by simp
  show "2 \<le> length em" using em by simp
  show "length m = length ex" using m ex by (simp add: length_transpose_rows)
  from n2 have "0 < length (eem_header lines)" by linarith
  then have "ncols m = length (tl data)" unfolding m by (rule ncols_transpose_rows)
  then show "\<forall>r\<in>set m. length r = ncols m"
    unfolding m by (auto simp: transpose_rows_def)
qed

lemma shape_zeros: "0 < a \<Longrightarrow> shape (zeros (a, b)) = (a, b)"
  by (cases a) (simp_all add: shape_def zeros_def ncols_def)

lemma broadcast_to_same:
  assumes "\<forall>r\<in>set m. length r = b" and "length m = a"
  shows "broadcast_to (a, b) m = m"
proof -
  have "map (broadcast_row b) m = m"
    using assms(1) by (simp add: broadcast_row_def map_idI)
  then show ?thesis using assms(2) by (simp add: broadcast_to_def Let_def)
qed

text \<open>A file on the running grids is not interpolated.\<close>

lemma align_same_grid:
  "align rnd interp meth stack m ex em ex em calls = (stack, m, ex, em, calls)"
  by (simp add: align_def Let_def float_gt_irrefl float_lt_irrefl)

text \<open>\<open>align\<close> when all four intervals are numbers.\<close>

lemma align_Float:
  assumes "interval_em rnd em = Float e" "interval_em rnd em_old = Float e0"
    and "interval_ex rnd ex = Float x" "interval_ex rnd ex_old = Float x0"
  shows "align rnd interp meth stack m ex em ex_old em_old calls =
     ((if e < e0 \<or> x < x0
       then process_eem_stack stack (interp None) em_old (rev ex_old)
              (if e0 < e then em_old else em) (rev (if x0 < x then ex_old else ex))
       else stack),
      (if e0 < e \<or> x0 < x
       then interp (Some meth) m em (rev ex)
              (if e0 < e then em_old else em) (rev (if x0 < x then ex_old else ex))
       else m),
      (if e0 < e \<or> x0 < x then ex_old else ex),
      (if e0 < e \<or> x0 < x then em_old else em),
      (if e < e0 \<or> x < x0
       then (if e0 < e \<or> x0 < x then calls + 1 else calls) + 1
       else (if e0 < e \<or> x0 < x then calls + 1 else calls)))"
  using assms by (simp add: align_def Let_def)

text \<open>
  The aggregator on two files, once \<open>read_eem\<close> and the four intervals are known: one pass
  of the alignment and one assignment of a slice.
\<close>

lemma read_eem_dataset_two_files:
  assumes "read_eem float (folder @ ''/'' @ f1) l1 ip fmt = Inr ((m1, ex1, em1, i1), msgs1)"
    and "read_eem float (folder @ ''/'' @ f2) l2 None fmt = Inr ((m2, ex2, em2, i2), msgs2)"
    and "interval_em rnd em2 = Float e" "interval_em rnd em1 = Float e0"
    and "interval_ex rnd ex2 = Float x" "interval_ex rnd ex1 = Float x0"
  shows "read_eem_dataset float rnd interp folder [(f1, l1), (f2, l2)] fmt ip True meth =
     (case set_slice
             (if e < e0 \<or> x < x0
              then process_eem_stack [m1, zeros (shape m1)] (interp None) em1 (rev ex1)
                     (if e0 < e then em1 else em2) (rev (if x0 < x then ex1 else ex2))
              else [m1, zeros (shape m1)])
             1
             (if e0 < e \<or> x0 < x
              then interp (Some meth) m2 em2 (rev ex2)
                     (if e0 < e then em1 else em2) (rev (if x0 < x then ex1 else ex2))
              else m2)
             f2 of
        (stack, msgs) \<Rightarrow>
          Inr ((stack, (if e0 < e \<or> x0 < x then ex1 else ex2),
                (if e0 < e \<or> x0 < x then em1 else em2), [i1, i2]),
               msgs1 @ msgs2 @ msgs,
               (if e < e0 \<or> x < x0
                then (if e0 < e \<or> x0 < x then 1 else 0) + 1
                else (if e0 < e \<or> x0 < x then 1 else 0))))"
proof -
  note al = align_Float[OF assms(3) assms(4) assms(5) assms(6)]
  show ?thesis
    using assms(1) assms(2)
    by (simp add: read_eem_dataset_def Let_def al numeral_2_eq_2 split: prod.splits)
qed

text \<open>The rounding of binary64 on given numbers, by computation.\<close>

lemmas binary64_eval =
  binary64_def floor_log2_def bit_length.simps pow2_def round_half_even_def Let_def

lemma loop_same_grid:
  assumes "list_all (\<lambda>(filename, lines). shares_grid float fmt ex em lines) rest"
    and "length filled = n" and "0 < length ex"
  shows "\<exists>indexes' printed'.
    read_eem_dataset_loop float rnd interp folder fmt True meth rest n
      (filled @ replicate (length rest) (zeros (length ex, length em)), ex, em, indexes, printed, calls) =
    Inr (filled @ map (\<lambda>(filename, lines). intensity_of float fmt lines) rest, ex, em,
         indexes', printed', calls)"
  using assms
proof (induction rest arbitrary: filled n indexes printed)
  case Nil
  then show ?case by simp
next
  case (Cons fl rest)
  obtain filename lines where fl: "fl = (filename, lines)" by (cases fl)
  from Cons.prems(1) fl obtain m where
    eo: "eem_of float fmt lines = Some (m, ex, em)" and sh: "shape m = (length ex, length em)"
    and rest: "list_all (\<lambda>(filename, lines). shares_grid float fmt ex em lines) rest"
    by (auto simp: shares_grid_def split: option.splits)
  from read_eem_eem_of_Some[OF eo] obtain msgs where
    rd: "read_eem float (folder @ ''/'' @ filename) lines None fmt =
           Inr ((m, ex, em, get_index (folder @ ''/'' @ filename) None), msgs)"
    by blast
  let ?z = "zeros (length ex, length em)"
  let ?stack = "filled @ replicate (length (fl # rest)) ?z"
  have nth: "?stack ! n = ?z" using Cons.prems(2) by (simp add: nth_append)
  have shz: "shape ?z = (length ex, length em)" using Cons.prems(3) by (rule shape_zeros)
  from sh have lm: "length m = length ex" and nc: "ncols m = length em"
    by (simp_all add: shape_def)
  from eem_of_props(4)[OF eo] nc have rows: "\<forall>r\<in>set m. length r = length em" by simp
  have bc: "broadcast_to (length ex, length em) m = m"
    using rows lm by (rule broadcast_to_same)
  have upd: "?stack[n := m] = (filled @ [m]) @ replicate (length rest) ?z"
    using Cons.prems(2) by (simp add: list_update_append)
  have ss: "set_slice ?stack n m filename = ((filled @ [m]) @ replicate (length rest) ?z, [])"
    unfolding set_slice_def nth shz sh using bc upd by (simp add: broadcastable_def)
  have io: "intensity_of float fmt lines = m" using eo by (simp add: intensity_of_def)
  from Cons.IH[OF rest _ Cons.prems(3), of "filled @ [m]" "Suc n"] Cons.prems(2)
  obtain indexes' printed' where
    "read_eem_dataset_loop float rnd interp folder fmt True meth rest (Suc n)
      ((filled @ [m]) @ replicate (length rest) ?z, ex, em,
       indexes @ [get_index (folder @ ''/'' @ filename) None], printed @ msgs @ [], calls) =
    Inr ((filled @ [m]) @ map (\<lambda>(filename, lines). intensity_of float fmt lines) rest, ex, em,
         indexes', printed', calls)"
    by fastforce
  then show ?case
    unfolding fl using rd ss io by (simp add: align_same_grid)
qed

text \<open>
  Claim C5, as the code has it. For every non-empty list of files that \<open>read_eem\<close> reads
  with one and the same pair of grids \<open>(ex, em)\<close> and with a matrix of the shape of these
  grids, \<open>read_eem_dataset\<close> with \<open>wavelength_alignment\<close> calls no interpolation function and
  returns the stack of the matrices as read, whatever \<open>eem_interpolation\<close> is. The condition
  on the shape is needed: a file that was cut short at a line of the wrong width has the
  same grids and a smaller matrix.
\<close>

theorem read_eem_dataset_same_grid:
  assumes "files \<noteq> []"
    and "list_all (\<lambda>(filename, lines). shares_grid float data_format ex em lines) files"
  shows "\<exists>indexes printed.
    read_eem_dataset float rnd interp folder_path files data_format index_pos True
        interpolation_method =
      Inr ((map (\<lambda>(filename, lines). intensity_of float data_format lines) files,
            ex, em, indexes), printed, 0)"
proof -
  from assms(1) obtain filename lines rest where files: "files = (filename, lines) # rest"
    by (cases files) auto
  from assms(2) files obtain m where
    eo: "eem_of float data_format lines = Some (m, ex, em)"
    and sh: "shape m = (length ex, length em)"
    and rest: "list_all (\<lambda>(filename, lines). shares_grid float data_format ex em lines) rest"
    by (auto simp: shares_grid_def split: option.splits)
  from read_eem_eem_of_Some[OF eo] obtain msgs where
    rd: "read_eem float (folder_path @ ''/'' @ filename) lines index_pos data_format =
           Inr ((m, ex, em, get_index (folder_path @ ''/'' @ filename) index_pos), msgs)"
    by blast
  from eem_of_props(1)[OF eo] have ex0: "0 < length ex" by linarith
  have st: "(replicate (length files) (zeros (shape m)))[0 := m] =
        [m] @ replicate (length rest) (zeros (length ex, length em))"
    by (simp add: files sh)
  from loop_same_grid[OF rest _ ex0, of "[m]" 1 rnd interp folder_path interpolation_method
      "[get_index (folder_path @ ''/'' @ filename) index_pos]" msgs 0]
  obtain indexes' printed' where
    "read_eem_dataset_loop float rnd interp folder_path data_format True interpolation_method rest 1
      ([m] @ replicate (length rest) (zeros (length ex, length em)), ex, em,
       [get_index (folder_path @ ''/'' @ filename) index_pos], msgs, 0) =
    Inr ([m] @ map (\<lambda>(filename, lines). intensity_of float data_format lines) rest, ex, em,
         indexes', printed', 0)"
    by auto
  moreover have "intensity_of float data_format lines = m"
    using eo by (simp add: intensity_of_def)
  ultimately show ?thesis
    unfolding read_eem_dataset_def using rd st
    by (simp add: Let_def files del: replicate.simps)
qed

theorem read_eem_dataset_same_grid_witness:
  "[(''a_PEM.dat'', [''250 260'', ''300 1 2'', ''310 3 4'']),
    (''b_PEM.dat'', [''250 260'', ''300 5 6'', ''310 7 8''])] \<noteq> [] \<and>
   list_all (\<lambda>(filename, lines). shares_grid dec_float ''aqualog'' [250, 260] [Float 300, Float 310] lines)
     [(''a_PEM.dat'', [''250 260'', ''300 1 2'', ''310 3 4'']),
      (''b_PEM.dat'', [''250 260'', ''300 5 6'', ''310 7 8''])] \<and>
   (\<exists>indexes printed.
      read_eem_dataset dec_float binary64 zero_interp ''d''
        [(''a_PEM.dat'', [''250 260'', ''300 1 2'', ''310 3 4'']),
         (''b_PEM.dat'', [''250 260'', ''300 5 6'', ''310 7 8''])]
        ''aqualog'' None True ''linear'' =
      Inr (([[[Float 1, Float 3], [Float 2, Float 4]], [[Float 5, Float 7], [Float 6, Float 8]]],
            [250, 260], [Float 300, Float 310], indexes), printed, 0))"
proof -
  let ?fs = "[(''a_PEM.dat'', [''250 260'', ''300 1 2'', ''310 3 4'']),
              (''b_PEM.dat'', [''250 260'', ''300 5 6'', ''310 7 8''])]"
  have ne: "?fs \<noteq> []" by simp
  have sg: "list_all (\<lambda>(filename, lines).
       shares_grid dec_float ''aqualog'' [250, 260] [Float 300, Float 310] lines) ?fs"
    by code_simp
  have iv: "map (\<lambda>(filename, lines). intensity_of dec_float ''aqualog'' lines) ?fs =
      [[[Float 1, Float 3], [Float 2, Float 4]], [[Float 5, Float 7], [Float 6, Float 8]]]"
    by code_simp
  show ?thesis
    using ne sg read_eem_dataset_same_grid[OF ne sg, of binary64 zero_interp "''d''" None "''linear''"]
    unfolding iv by simp
qed

text \<open>Claim C5 as stated fails: both files below are read with the grids \<open>[250, 260]\<close> and
  \<open>[300, 310]\<close>, no interpolation is called, and the second slice of the stack is left at
  zero, because the first file was cut short and the second matrix does not fit the
  slice (\<open>ValueError\<close>, caught, file name printed).\<close>

theorem read_eem_dataset_same_grid_counterexample:
  "eem_of dec_float ''aqualog'' [''250 260'', ''300 1 2'', ''310 3 4 5''] =
     Some ([[Float 1], [Float 2]], [250, 260], [Float 300, Float 310]) \<and>
   eem_of dec_float ''aqualog'' [''250 260'', ''300 5 6'', ''310 7 8''] =
     Some ([[Float 5, Float 7], [Float 6, Float 8]], [250, 260], [Float 300, Float 310]) \<and>
   read_eem_dataset dec_float binary64 zero_interp ''d''
     [(''a_PEM.dat'', [''250 260'', ''300 1 2'', ''310 3 4 5'']),
      (''b_PEM.dat'', [''250 260'', ''300 5 6'', ''310 7 8''])]
     ''aqualog'' None True ''linear'' =
   Inr (([[[Float 1], [Float 2]], [[Float 0], [Float 0]]],
         [250, 260], [Float 300, Float 310], [None, None]),
        [ColumnReport 4 3, CheckDimension ''b_PEM.dat''], 0)"
proof -
  have a: "eem_of dec_float ''aqualog'' [''250 260'', ''300 1 2'', ''310 3 4 5''] =
      Some ([[Float 1], [Float 2]], [250, 260], [Float 300, Float 310])"
    by code_simp
  have b: "eem_of dec_float ''aqualog'' [''250 260'', ''300 5 6'', ''310 7 8''] =
      Some ([[Float 5, Float 7], [Float 6, Float 8]], [250, 260], [Float 300, Float 310])"
    by code_simp
  have ra: "read_eem dec_float (''d'' @ ''/'' @ ''a_PEM.dat'')
        [''250 260'', ''300 1 2'', ''310 3 4 5''] None ''aqualog'' =
      Inr (([[Float 1], [Float 2]], [250, 260], [Float 300, Float 310], None),
           [ColumnReport 4 3])"
    by code_simp
  have rb: "read_eem dec_float (''d'' @ ''/'' @ ''b_PEM.dat'')
        [''250 260'', ''300 5 6'', ''310 7 8''] None ''aqualog'' =
      Inr (([[Float 5, Float 7], [Float 6, Float 8]], [250, 260], [Float 300, Float 310], None),
           [])"
    by code_simp
  have em: "interval_em binary64 [Float 300, Float 310] = Float 10"
    by (simp add: interval_em_def binary64_eval)
  have ex: "interval_ex binary64 [250, 260] = Float 10"
    by (simp add: interval_ex_def binary64_eval)
  have "read_eem_dataset dec_float binary64 zero_interp ''d''
     [(''a_PEM.dat'', [''250 260'', ''300 1 2'', ''310 3 4 5'']),
      (''b_PEM.dat'', [''250 260'', ''300 5 6'', ''310 7 8''])]
     ''aqualog'' None True ''linear'' =
   Inr (([[[Float 1], [Float 2]], [[Float 0], [Float 0]]],
         [250, 260], [Float 300, Float 310], [None, None]),
        [ColumnReport 4 3, CheckDimension ''b_PEM.dat''], 0)"
    unfolding read_eem_dataset_two_files[OF ra rb em em ex ex] by code_simp
  with a b show ?thesis by blast
qed


subsection \<open>Alignment\<close>

lemma float_le_trans: "float_le a b \<Longrightarrow> float_le b c \<Longrightarrow> float_le a c"
  by (cases a; cases b; cases c) simp_all

lemma is_min_Cons_le:
  "is_min v (w # vs) \<Longrightarrow> float_le w u \<Longrightarrow> is_min v (w # u # vs)"
  by (auto simp: is_min_def intro: float_le_trans)

lemma is_min_Cons_ge:
  "is_min v (u # vs) \<Longrightarrow> float_le u w \<Longrightarrow> is_min v (w # u # vs)"
  by (auto simp: is_min_def intro: float_le_trans)

text \<open>The assignment of a slice never changes the shape of the slices.\<close>

lemma shape_broadcast_to:
  assumes "broadcastable (shape m) (a, b)" and "0 < a"
  shows "shape (broadcast_to (a, b) m) = (a, b)"
proof (cases "length m = a")
  case True
  with assms(2) obtain r rs where m: "m = r # rs" by (cases m) auto
  with True show ?thesis
    by (simp add: broadcast_to_def shape_def ncols_def broadcast_row_def)
next
  case False
  with assms(1) have "length m = 1" by (simp add: broadcastable_def shape_def)
  then obtain r where m: "m = [r]" by (cases m) auto
  with False assms(2) show ?thesis
    by (cases a) (simp_all add: broadcast_to_def shape_def ncols_def broadcast_row_def)
qed

lemma set_slice_shapes:
  assumes "list_all (\<lambda>s. shape s = (a, b)) stack" and "0 < a"
    and "set_slice stack n m filename = (stack', msgs)"
  shows "list_all (\<lambda>s. shape s = (a, b)) stack'"
proof (cases "broadcastable (shape m) (shape (stack ! n))")
  case False
  with assms show ?thesis by (simp add: set_slice_def)
next
  case True
  show ?thesis
  proof (cases "n < length stack")
    case False
    then have "stack[n := broadcast_to (shape (stack ! n)) m] = stack"
      by (simp add: list_update_beyond)
    with assms True show ?thesis by (auto simp: set_slice_def)
  next
    case n: True
    with assms(1) have sh: "shape (stack ! n) = (a, b)"
      by (simp add: list_all_length)
    with True assms(2) have "shape (broadcast_to (a, b) m) = (a, b)"
      by (simp add: shape_broadcast_to)
    with assms sh True show ?thesis
      by (auto simp: set_slice_def list_all_iff dest!: set_update_subset_insert[THEN subsetD])
  qed
qed

text \<open>
  One pass of the loop on a file whose grids are comparable with the running grids. The
  running grids stay when the file is at least as coarse on both axes and become the
  file's grids when it is at least as fine on both. The slices keep the shape of the
  running grids.
\<close>

lemma dataset_step:
  assumes eo: "eem_of float fmt lines = Some (m, ex, em)"
    and c00: "comparable rnd (ex_old, em_old) (ex_old, em_old)"
    and c11: "comparable rnd (ex, em) (ex, em)"
    and c01: "comparable rnd (ex_old, em_old) (ex, em)"
  shows "\<exists>stack2 ex1 em1 indexes' printed' calls1.
     read_eem_dataset_loop float rnd interp folder fmt True meth ((filename, lines) # rest) n
        (stack, ex_old, em_old, indexes, printed, calls) =
     read_eem_dataset_loop float rnd interp folder fmt True meth rest (Suc n)
        (stack2, ex1, em1, indexes', printed', calls1) \<and>
     (((ex1, em1) = (ex_old, em_old) \<and>
        float_le (interval_ex rnd ex_old) (interval_ex rnd ex) \<and>
        float_le (interval_em rnd em_old) (interval_em rnd em)) \<or>
      ((ex1, em1) = (ex, em) \<and>
        float_le (interval_ex rnd ex) (interval_ex rnd ex_old) \<and>
        float_le (interval_em rnd em) (interval_em rnd em_old))) \<and>
     (target_shaped interp \<and> shape m = (length ex, length em) \<and>
      uniform rnd (ex_old, em_old) (ex, em) \<and>
      list_all (\<lambda>s. shape s = (length ex_old, length em_old)) stack \<and> 0 < length ex_old \<longrightarrow>
        list_all (\<lambda>s. shape s = (length ex1, length em1)) stack2)"
proof -
  from read_eem_eem_of_Some[OF eo] obtain msgs where
    rd: "read_eem float (folder @ ''/'' @ filename) lines None fmt =
           Inr ((m, ex, em, get_index (folder @ ''/'' @ filename) None), msgs)"
    by blast
  from c00 obtain x0 e0 where old: "interval_ex rnd ex_old = Float x0" "interval_em rnd em_old = Float e0"
    by (cases "interval_ex rnd ex_old"; cases "interval_em rnd em_old") (simp_all add: comparable_def)
  from c11 obtain x e where new: "interval_ex rnd ex = Float x" "interval_em rnd em = Float e"
    by (cases "interval_ex rnd ex"; cases "interval_em rnd em") (simp_all add: comparable_def)
  from c01 old new have cmp: "(x0 \<le> x \<and> e0 \<le> e) \<or> (x \<le> x0 \<and> e \<le> e0)"
    by (simp add: comparable_def)
  note al = align_Float[OF new(2) old(2) new(1) old(1)]
  from eem_of_props(1)[OF eo] have ex0: "0 < length ex" by linarith
  show ?thesis
  proof (cases "e0 < e \<or> x0 < x")
    case True
    with cmp have le: "x0 \<le> x" "e0 \<le> e" by auto
    then have nf: "\<not> (e < e0 \<or> x < x0)" by auto
    let ?I = "interp (Some meth) m em (rev ex)
              (if e0 < e then em_old else em) (rev (if x0 < x then ex_old else ex))"
    obtain stack2 msgs2 where ss: "set_slice stack n ?I filename = (stack2, msgs2)"
      by (cases "set_slice stack n ?I filename")
    have "read_eem_dataset_loop float rnd interp folder fmt True meth ((filename, lines) # rest) n
        (stack, ex_old, em_old, indexes, printed, calls) =
     read_eem_dataset_loop float rnd interp folder fmt True meth rest (Suc n)
        (stack2, ex_old, em_old, indexes @ [get_index (folder @ ''/'' @ filename) None],
         printed @ msgs @ msgs2, calls + 1)"
      using rd ss True nf by (simp add: al)
    moreover have "list_all (\<lambda>s. shape s = (length ex_old, length em_old)) stack \<and>
        0 < length ex_old \<longrightarrow> list_all (\<lambda>s. shape s = (length ex_old, length em_old)) stack2"
      using set_slice_shapes[OF _ _ ss] by blast
    moreover have "float_le (interval_ex rnd ex_old) (interval_ex rnd ex)"
      "float_le (interval_em rnd em_old) (interval_em rnd em)"
      using le old new by simp_all
    ultimately show ?thesis by blast
  next
    case False
    with cmp have le: "x \<le> x0" "e \<le> e0" by auto
    let ?S = "(if e < e0 \<or> x < x0
       then process_eem_stack stack (interp None) em_old (rev ex_old) em (rev ex)
       else stack)"
    obtain stack2 msgs2 where ss: "set_slice ?S n m filename = (stack2, msgs2)"
      by (cases "set_slice ?S n m filename")
    have "read_eem_dataset_loop float rnd interp folder fmt True meth ((filename, lines) # rest) n
        (stack, ex_old, em_old, indexes, printed, calls) =
     read_eem_dataset_loop float rnd interp folder fmt True meth rest (Suc n)
        (stack2, ex, em, indexes @ [get_index (folder @ ''/'' @ filename) None],
         printed @ msgs @ msgs2, (if e < e0 \<or> x < x0 then calls + 1 else calls))"
      using rd ss False by (cases "e < e0 \<or> x < x0") (simp_all add: al)
    moreover have "list_all (\<lambda>s. shape s = (length ex, length em)) stack2"
      if ts: "target_shaped interp" and "shape m = (length ex, length em)"
        and un: "uniform rnd (ex_old, em_old) (ex, em)"
        and st: "list_all (\<lambda>s. shape s = (length ex_old, length em_old)) stack"
    proof -
      have "list_all (\<lambda>s. shape s = (length ex, length em)) ?S"
      proof (cases "e < e0 \<or> x < x0")
        case True
        then show ?thesis
          using ts ex0 by (simp add: process_eem_stack_def target_shaped_def list_all_iff)
      next
        case f: False
        with le have "x = x0" "e = e0" by auto
        with un old new have "length ex_old = length ex" "length em_old = length em"
          by (simp_all add: uniform_def)
        with st f show ?thesis by simp
      qed
      from set_slice_shapes[OF this ex0 ss] show ?thesis .
    qed
    moreover have "float_le (interval_ex rnd ex) (interval_ex rnd ex_old)"
      "float_le (interval_em rnd em) (interval_em rnd em_old)"
      using le old new by simp_all
    ultimately show ?thesis by blast
  qed
qed

lemma comparable_refl_le:
  "comparable rnd g g \<Longrightarrow> float_le (interval_ex rnd (fst g)) (interval_ex rnd (fst g)) \<and>
     float_le (interval_em rnd (snd g)) (interval_em rnd (snd g))"
  by (auto simp: comparable_def)

lemma loop_finest:
  assumes reads: "map (\<lambda>(filename, lines). eem_of float fmt lines) rest = map Some eems"
    and chain: "\<forall>g\<in>set ((ex_old, em_old) # map grids_of eems).
                  \<forall>h\<in>set ((ex_old, em_old) # map grids_of eems). comparable rnd g h"
  shows "\<exists>stack' ex' em' indexes' printed' calls'.
     read_eem_dataset_loop float rnd interp folder fmt True meth rest n
        (stack, ex_old, em_old, indexes, printed, calls) =
       Inr (stack', ex', em', indexes', printed', calls') \<and>
     is_min (interval_ex rnd ex')
       (map (\<lambda>g. interval_ex rnd (fst g)) ((ex_old, em_old) # map grids_of eems)) \<and>
     is_min (interval_em rnd em')
       (map (\<lambda>g. interval_em rnd (snd g)) ((ex_old, em_old) # map grids_of eems)) \<and>
     (target_shaped interp \<and>
      (\<forall>e\<in>set eems. shape (fst e) = (length (fst (snd e)), length (snd (snd e)))) \<and>
      (\<forall>g\<in>set ((ex_old, em_old) # map grids_of eems).
         \<forall>h\<in>set ((ex_old, em_old) # map grids_of eems). uniform rnd g h) \<and>
      list_all (\<lambda>s. shape s = (length ex_old, length em_old)) stack \<and> 0 < length ex_old \<longrightarrow>
        list_all (\<lambda>s. shape s = (length ex', length em')) stack')"
  using assms
proof (induction rest arbitrary: eems n stack ex_old em_old indexes printed calls)
  case Nil
  then have "comparable rnd (ex_old, em_old) (ex_old, em_old)" by simp
  from comparable_refl_le[OF this] Nil show ?case
    by (simp add: is_min_def)
next
  case (Cons fl rest)
  obtain filename lines where fl: "fl = (filename, lines)" by (cases fl)
  from Cons.prems(1) fl obtain m ex em eems' where
    eems: "eems = (m, ex, em) # eems'"
    and eo: "eem_of float fmt lines = Some (m, ex, em)"
    and reads': "map (\<lambda>(filename, lines). eem_of float fmt lines) rest = map Some eems'"
    by (cases eems) auto
  let ?old = "(ex_old, em_old)" and ?new = "(ex, em)"
  let ?fx = "\<lambda>g::grids. interval_ex rnd (fst g)" and ?fm = "\<lambda>g::grids. interval_em rnd (snd g)"
  have gs: "?old # map grids_of eems = ?old # ?new # map grids_of eems'"
    by (simp add: eems grids_of_def)
  from Cons.prems(2) have chain: "\<forall>g\<in>set (?old # ?new # map grids_of eems').
      \<forall>h\<in>set (?old # ?new # map grids_of eems'). comparable rnd g h"
    unfolding gs .
  from chain have c00: "comparable rnd ?old ?old" and c11: "comparable rnd ?new ?new"
    and c01: "comparable rnd ?old ?new"
    by simp_all
  from dataset_step[OF eo c00 c11 c01, of interp folder meth filename rest n stack indexes
      printed calls]
  obtain stack2 ex1 em1 indexes1 printed1 calls1 where
    eq: "read_eem_dataset_loop float rnd interp folder fmt True meth ((filename, lines) # rest) n
          (stack, ex_old, em_old, indexes, printed, calls) =
         read_eem_dataset_loop float rnd interp folder fmt True meth rest (Suc n)
          (stack2, ex1, em1, indexes1, printed1, calls1)"
    and disj: "((ex1, em1) = (ex_old, em_old) \<and>
                 float_le (interval_ex rnd ex_old) (interval_ex rnd ex) \<and>
                 float_le (interval_em rnd em_old) (interval_em rnd em)) \<or>
               ((ex1, em1) = (ex, em) \<and>
                 float_le (interval_ex rnd ex) (interval_ex rnd ex_old) \<and>
                 float_le (interval_em rnd em) (interval_em rnd em_old))"
    and shp: "target_shaped interp \<and> shape m = (length ex, length em) \<and>
              uniform rnd (ex_old, em_old) (ex, em) \<and>
              list_all (\<lambda>s. shape s = (length ex_old, length em_old)) stack \<and>
              0 < length ex_old \<longrightarrow>
              list_all (\<lambda>s. shape s = (length ex1, length em1)) stack2"
    by blast
  let ?run = "(ex1, em1)"
  from disj have g1: "?run = ?old \<or> ?run = ?new" by auto
  then have sub: "set (?run # map grids_of eems') \<subseteq> set (?old # ?new # map grids_of eems')"
    by auto
  with chain have chain': "\<forall>g\<in>set (?run # map grids_of eems').
                  \<forall>h\<in>set (?run # map grids_of eems'). comparable rnd g h"
    by blast
  from Cons.IH[OF reads' chain', of "Suc n" stack2 indexes1 printed1 calls1]
  obtain stack' ex' em' indexes' printed' calls' where
    fin: "read_eem_dataset_loop float rnd interp folder fmt True meth rest (Suc n)
            (stack2, ex1, em1, indexes1, printed1, calls1) =
          Inr (stack', ex', em', indexes', printed', calls')"
    and mx: "is_min (interval_ex rnd ex') (map ?fx (?run # map grids_of eems'))"
    and mm: "is_min (interval_em rnd em') (map ?fm (?run # map grids_of eems'))"
    and shp': "target_shaped interp \<and>
      (\<forall>e\<in>set eems'. shape (fst e) = (length (fst (snd e)), length (snd (snd e)))) \<and>
      (\<forall>g\<in>set (?run # map grids_of eems').
         \<forall>h\<in>set (?run # map grids_of eems'). uniform rnd g h) \<and>
      list_all (\<lambda>s. shape s = (length ex1, length em1)) stack2 \<and> 0 < length ex1 \<longrightarrow>
        list_all (\<lambda>s. shape s = (length ex', length em')) stack'"
    by blast
  have mx0: "is_min (interval_ex rnd ex') (map ?fx (?old # ?new # map grids_of eems'))"
    using disj mx by (auto intro: is_min_Cons_le is_min_Cons_ge)
  have mm0: "is_min (interval_em rnd em') (map ?fm (?old # ?new # map grids_of eems'))"
    using disj mm by (auto intro: is_min_Cons_le is_min_Cons_ge)
  from eem_of_props(1)[OF eo] have ex0: "0 < length ex" by linarith
  have final: "list_all (\<lambda>s. shape s = (length ex', length em')) stack'"
    if ts: "target_shaped interp"
      and conf: "\<forall>e\<in>set eems. shape (fst e) = (length (fst (snd e)), length (snd (snd e)))"
      and un: "\<forall>g\<in>set (?old # ?new # map grids_of eems').
                 \<forall>h\<in>set (?old # ?new # map grids_of eems'). uniform rnd g h"
      and st: "list_all (\<lambda>s. shape s = (length ex_old, length em_old)) stack"
      and old0: "0 < length ex_old"
  proof -
    from conf have cm: "shape m = (length ex, length em)"
      and conf': "\<forall>e\<in>set eems'. shape (fst e) = (length (fst (snd e)), length (snd (snd e)))"
      by (simp_all add: eems)
    from un have u01: "uniform rnd ?old ?new" by simp
    from shp ts cm u01 st old0
    have st2: "list_all (\<lambda>s. shape s = (length ex1, length em1)) stack2" by blast
    from un sub have un': "\<forall>g\<in>set (?run # map grids_of eems').
         \<forall>h\<in>set (?run # map grids_of eems'). uniform rnd g h"
      by blast
    from g1 old0 ex0 have "0 < length ex1" by auto
    with shp' ts conf' un' st2 show ?thesis by blast
  qed
  show ?case
    unfolding fl gs eq fin using mx0 mm0 final by (simp add: gs)
qed

lemma target_shaped_zero_interp: "target_shaped zero_interp"
  by (simp add: target_shaped_def zero_interp_def shape_zeros)

text \<open>
  Claim C1, as the code has it. The claim has the common grid as the coarsest grid seen
  (largest interval); the code keeps, as its docstring says, the grid with the smallest
  interval: the target on an axis is the old grid when the new interval is larger.

  The intervals are the floats the code computes and compares, \<open>(max - min) / (n - 1)\<close>
  with each operation rounded by \<open>rnd\<close>. For every rounding and every non-empty list of
  files that \<open>read_eem\<close> reads, aggregated by \<open>read_eem_dataset\<close> with
  \<open>wavelength_alignment\<close>, in which no file has a smaller interval than another on one
  axis and a larger one on the other, the aggregator returns, and on each axis the
  interval of the returned grid is the minimum of the intervals of the input files on
  that axis. If moreover every matrix has the shape of its grids, files with equal
  intervals have equally long grids, and \<open>eem_interpolation\<close> returns matrices of the shape
  of the target grids, then the last two dimensions of the stack are the lengths of the
  returned excitation and emission grids.

  Nothing is stated for files of mixed resolution (see
  \<open>read_eem_dataset_mixed_resolution\<close> and \<open>read_eem_dataset_rounded_intervals\<close> below),
  nor for \<open>read_abs_dataset\<close>, which returns the grid of the file read last
  (\<open>read_abs_dataset_grid\<close> below).
\<close>

theorem read_eem_dataset_finest_grid:
  assumes reads: "map (\<lambda>(filename, lines). eem_of float data_format lines) files = map Some eems"
    and ne: "files \<noteq> []"
    and ord: "ordered_by_resolution rnd eems"
  shows "\<exists>eem_stack ex_range em_range indexes printed calls.
     read_eem_dataset float rnd interp folder_path files data_format index_pos True
         interpolation_method =
       Inr ((eem_stack, ex_range, em_range, indexes), printed, calls) \<and>
     is_min (interval_ex rnd ex_range) (ex_intervals rnd eems) \<and>
     is_min (interval_em rnd em_range) (em_intervals rnd eems) \<and>
     (target_shaped interp \<and> conforming eems \<and> equal_resolution_equal_length rnd eems \<longrightarrow>
        list_all (\<lambda>slice. shape slice = (length ex_range, length em_range)) eem_stack)"
proof -
  from ne obtain filename lines rest where files: "files = (filename, lines) # rest"
    by (cases files) auto
  from reads files obtain m ex em eems' where
    eems: "eems = (m, ex, em) # eems'"
    and eo: "eem_of float data_format lines = Some (m, ex, em)"
    and reads': "map (\<lambda>(filename, lines). eem_of float data_format lines) rest = map Some eems'"
    by (cases eems) auto
  from read_eem_eem_of_Some[OF eo] obtain msgs where
    rd: "read_eem float (folder_path @ ''/'' @ filename) lines index_pos data_format =
           Inr ((m, ex, em, get_index (folder_path @ ''/'' @ filename) index_pos), msgs)"
    by blast
  have gs: "map grids_of eems = (ex, em) # map grids_of eems'"
    by (simp add: eems grids_of_def)
  from ord have chain: "\<forall>g\<in>set ((ex, em) # map grids_of eems').
                  \<forall>h\<in>set ((ex, em) # map grids_of eems'). comparable rnd g h"
    unfolding ordered_by_resolution_def gs by (simp add: list_all_iff)
  let ?stack = "(replicate (length files) (zeros (shape m)))[0 := m]"
  from loop_finest[OF reads' chain, of interp folder_path interpolation_method 1 ?stack
      "[get_index (folder_path @ ''/'' @ filename) index_pos]" msgs 0]
  obtain stack' ex' em' indexes' printed' calls' where
    fin: "read_eem_dataset_loop float rnd interp folder_path data_format True interpolation_method
            rest 1 (?stack, ex, em, [get_index (folder_path @ ''/'' @ filename) index_pos],
                    msgs, 0) =
          Inr (stack', ex', em', indexes', printed', calls')"
    and mx: "is_min (interval_ex rnd ex')
               (map (\<lambda>g. interval_ex rnd (fst g)) ((ex, em) # map grids_of eems'))"
    and mm: "is_min (interval_em rnd em')
               (map (\<lambda>g. interval_em rnd (snd g)) ((ex, em) # map grids_of eems'))"
    and shp: "target_shaped interp \<and>
      (\<forall>e\<in>set eems'. shape (fst e) = (length (fst (snd e)), length (snd (snd e)))) \<and>
      (\<forall>g\<in>set ((ex, em) # map grids_of eems').
         \<forall>h\<in>set ((ex, em) # map grids_of eems'). uniform rnd g h) \<and>
      list_all (\<lambda>s. shape s = (length ex, length em)) ?stack \<and> 0 < length ex \<longrightarrow>
        list_all (\<lambda>s. shape s = (length ex', length em')) stack'"
    by blast
  from eem_of_props(1)[OF eo] have ex0: "0 < length ex" by linarith
  have final: "list_all (\<lambda>s. shape s = (length ex', length em')) stack'"
    if ts: "target_shaped interp" and cf: "conforming eems"
      and un: "equal_resolution_equal_length rnd eems"
  proof -
    from cf have cm: "shape m = (length ex, length em)"
      and cf': "\<forall>e\<in>set eems'. shape (fst e) = (length (fst (snd e)), length (snd (snd e)))"
      by (simp_all add: conforming_def eems list_all_iff)
    from un have un': "\<forall>g\<in>set ((ex, em) # map grids_of eems').
         \<forall>h\<in>set ((ex, em) # map grids_of eems'). uniform rnd g h"
      unfolding equal_resolution_equal_length_def gs by (simp add: list_all_iff)
    have "shape (zeros (shape m)) = (length ex, length em)"
      unfolding cm using ex0 by (rule shape_zeros)
    then have "list_all (\<lambda>s. shape s = (length ex, length em)) ?stack"
      using cm by (auto simp: list_all_iff dest!: set_update_subset_insert[THEN subsetD])
    with shp ts cf' un' ex0 show ?thesis by blast
  qed
  have "read_eem_dataset float rnd interp folder_path files data_format index_pos True
         interpolation_method = Inr ((stack', ex', em', indexes'), printed', calls')"
    unfolding read_eem_dataset_def using rd fin by (simp add: files Let_def)
  moreover have "is_min (interval_ex rnd ex') (ex_intervals rnd eems)"
    using mx by (simp add: ex_intervals_def gs)
  moreover have "is_min (interval_em rnd em') (em_intervals rnd eems)"
    using mm by (simp add: em_intervals_def gs)
  ultimately show ?thesis using final by blast
qed

theorem read_eem_dataset_finest_grid_witness:
  "map (\<lambda>(filename, lines). eem_of dec_float ''aqualog'' lines)
     [(''a_PEM.dat'', [''250 260'', ''300 1 2'', ''310 3 4'', ''320 5 6'']),
      (''b_PEM.dat'', [''250 260'', ''300 1 2'', ''305 3 4'', ''310 5 6''])] =
   map Some
     [([[Float 1, Float 3, Float 5], [Float 2, Float 4, Float 6]], [250, 260],
       [Float 300, Float 310, Float 320]),
      ([[Float 1, Float 3, Float 5], [Float 2, Float 4, Float 6]], [250, 260],
       [Float 300, Float 305, Float 310])] \<and>
   ordered_by_resolution binary64
     [([[Float 1, Float 3, Float 5], [Float 2, Float 4, Float 6]], [250, 260],
       [Float 300, Float 310, Float 320]),
      ([[Float 1, Float 3, Float 5], [Float 2, Float 4, Float 6]], [250, 260],
       [Float 300, Float 305, Float 310])] \<and>
   (\<exists>eem_stack ex_range em_range indexes printed calls.
     read_eem_dataset dec_float binary64 zero_interp ''d''
       [(''a_PEM.dat'', [''250 260'', ''300 1 2'', ''310 3 4'', ''320 5 6'']),
        (''b_PEM.dat'', [''250 260'', ''300 1 2'', ''305 3 4'', ''310 5 6''])]
       ''aqualog'' None True ''linear'' =
       Inr ((eem_stack, ex_range, em_range, indexes), printed, calls) \<and>
     is_min (interval_ex binary64 ex_range) [Float 10, Float 10] \<and>
     is_min (interval_em binary64 em_range) [Float 10, Float 5] \<and>
     list_all (\<lambda>slice. shape slice = (length ex_range, length em_range)) eem_stack)"
proof -
  let ?files = "[(''a_PEM.dat'', [''250 260'', ''300 1 2'', ''310 3 4'', ''320 5 6'']),
      (''b_PEM.dat'', [''250 260'', ''300 1 2'', ''305 3 4'', ''310 5 6''])]"
  let ?eems = "[([[Float 1, Float 3, Float 5], [Float 2, Float 4, Float 6]], [250, 260],
       [Float 300, Float 310, Float 320]),
      ([[Float 1, Float 3, Float 5], [Float 2, Float 4, Float 6]], [250::int, 260],
       [Float 300, Float 305, Float 310])]"
  have reads: "map (\<lambda>(filename, lines). eem_of dec_float ''aqualog'' lines) ?files = map Some ?eems"
    by code_simp
  have ne: "?files \<noteq> []" by simp
  have ex: "interval_ex binary64 [250, 260] = Float 10"
    by (simp add: interval_ex_def binary64_eval)
  have ema: "interval_em binary64 [Float 300, Float 310, Float 320] = Float 10"
    by (simp add: interval_em_def binary64_eval)
  have emb: "interval_em binary64 [Float 300, Float 305, Float 310] = Float 5"
    by (simp add: interval_em_def binary64_eval)
  have ord: "ordered_by_resolution binary64 ?eems"
    by (simp add: ordered_by_resolution_def comparable_def grids_of_def ex ema emb)
  have cf: "conforming ?eems" by code_simp
  have un: "equal_resolution_equal_length binary64 ?eems"
    by (simp add: equal_resolution_equal_length_def uniform_def grids_of_def ex ema emb)
  have xi: "ex_intervals binary64 ?eems = [Float 10, Float 10]"
    by (simp add: ex_intervals_def grids_of_def ex)
  have mi: "em_intervals binary64 ?eems = [Float 10, Float 5]"
    by (simp add: em_intervals_def grids_of_def ema emb)
  show ?thesis
    using reads ord
      read_eem_dataset_finest_grid[OF reads ne ord, of zero_interp "''d''" None "''linear''"]
      target_shaped_zero_interp cf un
    unfolding xi mi by blast
qed

text \<open>Claim C1 as stated fails: the first file has emission interval 10, the second 5, and
  the returned emission grid is that of the second file, with interval 5, not the
  maximum 10.\<close>

theorem read_eem_dataset_finest_grid_counterexample:
  "eem_of dec_float ''aqualog'' [''250 260'', ''300 1 2'', ''310 3 4'', ''320 5 6''] =
     Some ([[Float 1, Float 3, Float 5], [Float 2, Float 4, Float 6]], [250, 260],
           [Float 300, Float 310, Float 320]) \<and>
   interval_em binary64 [Float 300, Float 310, Float 320] = Float 10 \<and>
   read_eem_dataset dec_float binary64 zero_interp ''d''
     [(''a_PEM.dat'', [''250 260'', ''300 1 2'', ''310 3 4'', ''320 5 6'']),
      (''b_PEM.dat'', [''250 260'', ''300 1 2'', ''305 3 4'', ''310 5 6''])]
     ''aqualog'' None True ''linear'' =
   Inr (([[[Float 0, Float 0, Float 0], [Float 0, Float 0, Float 0]],
          [[Float 1, Float 3, Float 5], [Float 2, Float 4, Float 6]]],
         [250, 260], [Float 300, Float 305, Float 310], [None, None]), [], 1) \<and>
   interval_em binary64 [Float 300, Float 305, Float 310] = Float 5 \<and>
   interval_em binary64 [Float 300, Float 305, Float 310] \<noteq> Float 10"
proof -
  have a: "eem_of dec_float ''aqualog'' [''250 260'', ''300 1 2'', ''310 3 4'', ''320 5 6''] =
     Some ([[Float 1, Float 3, Float 5], [Float 2, Float 4, Float 6]], [250, 260],
           [Float 300, Float 310, Float 320])"
    by code_simp
  have ra: "read_eem dec_float (''d'' @ ''/'' @ ''a_PEM.dat'')
        [''250 260'', ''300 1 2'', ''310 3 4'', ''320 5 6''] None ''aqualog'' =
      Inr (([[Float 1, Float 3, Float 5], [Float 2, Float 4, Float 6]], [250, 260],
            [Float 300, Float 310, Float 320], None), [])"
    by code_simp
  have rb: "read_eem dec_float (''d'' @ ''/'' @ ''b_PEM.dat'')
        [''250 260'', ''300 1 2'', ''305 3 4'', ''310 5 6''] None ''aqualog'' =
      Inr (([[Float 1, Float 3, Float 5], [Float 2, Float 4, Float 6]], [250, 260],
            [Float 300, Float 305, Float 310], None), [])"
    by code_simp
  have ex: "interval_ex binary64 [250, 260] = Float 10"
    by (simp add: interval_ex_def binary64_eval)
  have ema: "interval_em binary64 [Float 300, Float 310, Float 320] = Float 10"
    by (simp add: interval_em_def binary64_eval)
  have emb: "interval_em binary64 [Float 300, Float 305, Float 310] = Float 5"
    by (simp add: interval_em_def binary64_eval)
  have "read_eem_dataset dec_float binary64 zero_interp ''d''
     [(''a_PEM.dat'', [''250 260'', ''300 1 2'', ''310 3 4'', ''320 5 6'']),
      (''b_PEM.dat'', [''250 260'', ''300 1 2'', ''305 3 4'', ''310 5 6''])]
     ''aqualog'' None True ''linear'' =
   Inr (([[[Float 0, Float 0, Float 0], [Float 0, Float 0, Float 0]],
          [[Float 1, Float 3, Float 5], [Float 2, Float 4, Float 6]]],
         [250, 260], [Float 300, Float 305, Float 310], [None, None]), [], 1)"
    unfolding read_eem_dataset_two_files[OF ra rb emb ema ex ex] by code_simp
  with a ema emb show ?thesis by simp
qed

text \<open>
  A file that is coarser on the emission axis and finer on the excitation axis: both
  branches of the alignment run. The matrix and the stack are interpolated onto the old
  emission grid and the new excitation grid (five points), while both returned grids are
  the old ones (three excitation points, interval 10): on the excitation axis the
  returned grid is neither the finer one nor as long as the stack.
\<close>

lemma read_eem_dataset_mixed_resolution:
  "read_eem_dataset dec_float binary64 zero_interp ''d''
     [(''a_PEM.dat'', [''250 260 270'', ''300 1 2 3'', ''310 4 5 6'', ''320 7 8 9'']),
      (''b_PEM.dat'', [''250 255 260 265 270'', ''300 1 2 3 4 5'', ''320 1 2 3 4 5'',
                       ''340 1 2 3 4 5''])]
     ''aqualog'' None True ''linear'' =
   Inr (([zeros (5, 3), zeros (5, 3)],
         [250, 260, 270], [Float 300, Float 310, Float 320], [None, None]), [], 2) \<and>
   interval_ex binary64 [250, 260, 270] = Float 10 \<and>
   interval_ex binary64 [250, 255, 260, 265, 270] = Float 5"
proof -
  have ra: "read_eem dec_float (''d'' @ ''/'' @ ''a_PEM.dat'')
        [''250 260 270'', ''300 1 2 3'', ''310 4 5 6'', ''320 7 8 9''] None ''aqualog'' =
      Inr (([[Float 1, Float 4, Float 7], [Float 2, Float 5, Float 8],
             [Float 3, Float 6, Float 9]], [250, 260, 270],
            [Float 300, Float 310, Float 320], None), [])"
    by code_simp
  have rb: "read_eem dec_float (''d'' @ ''/'' @ ''b_PEM.dat'')
        [''250 255 260 265 270'', ''300 1 2 3 4 5'', ''320 1 2 3 4 5'', ''340 1 2 3 4 5'']
        None ''aqualog'' =
      Inr (([replicate 3 (Float 1), replicate 3 (Float 2), replicate 3 (Float 3),
             replicate 3 (Float 4), replicate 3 (Float 5)], [250, 255, 260, 265, 270],
            [Float 300, Float 320, Float 340], None), [])"
    by code_simp
  have exa: "interval_ex binary64 [250, 260, 270] = Float 10"
    by (simp add: interval_ex_def binary64_eval)
  have exb: "interval_ex binary64 [250, 255, 260, 265, 270] = Float 5"
    by (simp add: interval_ex_def binary64_eval)
  have ema: "interval_em binary64 [Float 300, Float 310, Float 320] = Float 10"
    by (simp add: interval_em_def binary64_eval)
  have emb: "interval_em binary64 [Float 300, Float 320, Float 340] = Float 20"
    by (simp add: interval_em_def binary64_eval)
  have "read_eem_dataset dec_float binary64 zero_interp ''d''
     [(''a_PEM.dat'', [''250 260 270'', ''300 1 2 3'', ''310 4 5 6'', ''320 7 8 9'']),
      (''b_PEM.dat'', [''250 255 260 265 270'', ''300 1 2 3 4 5'', ''320 1 2 3 4 5'',
                       ''340 1 2 3 4 5''])]
     ''aqualog'' None True ''linear'' =
   Inr (([zeros (5, 3), zeros (5, 3)],
         [250, 260, 270], [Float 300, Float 310, Float 320], [None, None]), [], 2)"
    unfolding read_eem_dataset_two_files[OF ra rb emb ema exb exa] by code_simp
  with exa exb show ?thesis by simp
qed

text \<open>
  Rounding decides which files are of mixed resolution. The emission grids 0.1, 0.2 and
  0.1, 0.2, 0.3, 0.4 have the same interval as decimal numbers; as doubles the first
  interval is the double of 0.1 and the second, \<open>(0.4 - 0.1) / 3\<close>, is the next double
  above it. With the excitation interval 10 in the first file and 5 in the second, the
  second file is coarser on the emission axis and finer on the excitation axis: both
  branches run, and the returned excitation grid is the one of three points, over a stack
  of five.
\<close>

lemma read_eem_dataset_rounded_intervals:
  "interval_em binary64 [Float (binary64 (1 / 10)), Float (binary64 (2 / 10))] =
     Float (binary64 (1 / 10)) \<and>
   interval_em binary64 [Float (binary64 (1 / 10)), Float (binary64 (2 / 10)),
                         Float (binary64 (3 / 10)), Float (binary64 (4 / 10))] =
     Float (binary64 (1 / 10) + 1 / 2 ^ 56) \<and>
   read_eem_dataset dec_float64 binary64 zero_interp ''d''
     [(''a_PEM.dat'', [''250 260 270'', ''0.1 1 2 3'', ''0.2 4 5 6'']),
      (''b_PEM.dat'', [''250 255 260 265 270'', ''0.1 1 2 3 4 5'', ''0.2 1 2 3 4 5'',
                       ''0.3 1 2 3 4 5'', ''0.4 1 2 3 4 5''])]
     ''aqualog'' None True ''linear'' =
   Inr (([zeros (5, 2), zeros (5, 2)],
         [250, 260, 270], [Float (binary64 (1 / 10)), Float (binary64 (2 / 10))],
         [None, None]), [], 2) \<and>
   \<not> comparable binary64
     ([250, 260, 270], [Float (binary64 (1 / 10)), Float (binary64 (2 / 10))])
     ([250, 255, 260, 265, 270],
      [Float (binary64 (1 / 10)), Float (binary64 (2 / 10)),
       Float (binary64 (3 / 10)), Float (binary64 (4 / 10))])"
proof -
  let ?ema = "[Float (binary64 (1 / 10)), Float (binary64 (2 / 10))]"
  let ?emb = "[Float (binary64 (1 / 10)), Float (binary64 (2 / 10)),
               Float (binary64 (3 / 10)), Float (binary64 (4 / 10))]"
  have ra: "read_eem dec_float64 (''d'' @ ''/'' @ ''a_PEM.dat'')
        [''250 260 270'', ''0.1 1 2 3'', ''0.2 4 5 6''] None ''aqualog'' =
      Inr (([[Float 1, Float 4], [Float 2, Float 5], [Float 3, Float 6]],
            [250, 260, 270], ?ema, None), [])"
    by code_simp
  have rb: "read_eem dec_float64 (''d'' @ ''/'' @ ''b_PEM.dat'')
        [''250 255 260 265 270'', ''0.1 1 2 3 4 5'', ''0.2 1 2 3 4 5'', ''0.3 1 2 3 4 5'',
         ''0.4 1 2 3 4 5'']
        None ''aqualog'' =
      Inr (([replicate 4 (Float 1), replicate 4 (Float 2), replicate 4 (Float 3),
             replicate 4 (Float 4), replicate 4 (Float 5)],
            [250, 255, 260, 265, 270], ?emb, None), [])"
    by code_simp
  have exa: "interval_ex binary64 [250, 260, 270] = Float 10"
    by (simp add: interval_ex_def binary64_eval)
  have exb: "interval_ex binary64 [250, 255, 260, 265, 270] = Float 5"
    by (simp add: interval_ex_def binary64_eval)
  have ema: "interval_em binary64 ?ema = Float (binary64 (1 / 10))"
    by (simp add: interval_em_def binary64_eval)
  have emb: "interval_em binary64 ?emb = Float (binary64 (1 / 10) + 1 / 2 ^ 56)"
    by (simp add: interval_em_def binary64_eval)
  have lt: "binary64 (1 / 10) < binary64 (1 / 10) + 1 / 2 ^ 56" by simp
  have "read_eem_dataset dec_float64 binary64 zero_interp ''d''
     [(''a_PEM.dat'', [''250 260 270'', ''0.1 1 2 3'', ''0.2 4 5 6'']),
      (''b_PEM.dat'', [''250 255 260 265 270'', ''0.1 1 2 3 4 5'', ''0.2 1 2 3 4 5'',
                       ''0.3 1 2 3 4 5'', ''0.4 1 2 3 4 5''])]
     ''aqualog'' None True ''linear'' =
   Inr (([zeros (5, 2), zeros (5, 2)], [250, 260, 270], ?ema, [None, None]), [], 2)"
    unfolding read_eem_dataset_two_files[OF ra rb emb ema exb exa]
    using lt by (simp add: process_eem_stack_def zero_interp_def set_slice_def zeros_def
        shape_def ncols_def broadcastable_def broadcast_to_def broadcast_row_def Let_def
        eval_nat_numeral)
  moreover have "\<not> comparable binary64 ([250, 260, 270], ?ema) ([250, 255, 260, 265, 270], ?emb)"
    unfolding comparable_def fst_conv snd_conv exa exb ema emb using lt by simp
  ultimately show ?thesis using ema emb by blast
qed


section \<open>Properties of read\_abs\_dataset\<close>

text \<open>Whatever the intervals, the grid that \<open>read_abs_dataset\<close> returns is the grid of the
  file read last.\<close>

lemma read_abs_dataset_loop_grid:
  "read_abs_dataset_loop float rnd interp1d folder fmt ip wa meth num rest n (stack, ex_old, indexes) =
     Inr (stack', ex', indexes') \<Longrightarrow> rest \<noteq> [] \<Longrightarrow>
   \<exists>absorbance index.
     read_abs float (folder @ ''/'' @ fst (last rest)) (snd (last rest)) ip fmt =
       Inr (absorbance, ex', index)"
proof (induction rest arbitrary: n stack ex_old indexes)
  case Nil
  then show ?case by simp
next
  case (Cons fl rest)
  obtain filename lines where fl: "fl = (filename, lines)" by (cases fl)
  from Cons.prems(1) fl obtain absorbance ex_range index stack2 where
    rd: "read_abs float (folder @ ''/'' @ filename) lines ip fmt = Inr (absorbance, ex_range, index)"
    and rec: "read_abs_dataset_loop float rnd interp1d folder fmt ip wa meth num rest (Suc n)
               (stack2, ex_range, indexes @ [index]) = Inr (stack', ex', indexes')"
    by (auto split: sum.splits prod.splits if_splits)
  show ?case
  proof (cases "rest = []")
    case True
    with rec rd fl show ?thesis by simp
  next
    case False
    with Cons.IH[OF rec] show ?thesis by simp
  qed
qed

text \<open>With a fine file followed by a coarse one, the coarse spectrum is interpolated onto
  the three points of the first file, and the grid returned is the coarse one of the
  second file, with two points.\<close>

lemma read_abs_dataset_returns_last_grid:
  "read_abs_dataset dec_float binary64 zero_interp1d ''d''
     [(''a_ABS.dat'', [''250 1'', ''251 2'', ''252 3'']), (''b_ABS.dat'', [''250 1'', ''252 3''])]
     ''aqualog'' None True ''linear'' =
   Inr ([[Float 3, Float 2, Float 1], [Float 0, Float 0, Float 0]],
        [Float 252, Float 250], [''a_ABS.dat'', ''b_ABS.dat''], [None, None])"
  by code_simp


lemma read_abs_dataset_grid:
  assumes "read_abs_dataset float rnd interp1d folder files fmt ip wa meth =
             Inr (abs_stack, ex_range, names, indexes)"
  shows "\<exists>absorbance index.
     read_abs float (folder @ ''/'' @ fst (last files)) (snd (last files)) ip fmt =
       Inr (absorbance, ex_range, index)"
proof -
  from assms obtain filename lines rest where files: "files = (filename, lines) # rest"
    by (cases files) (auto simp: read_abs_dataset_def)
  from assms files obtain absorbance ex0 index stack0 indexes0 where
    rd: "read_abs float (folder @ ''/'' @ filename) lines ip fmt = Inr (absorbance, ex0, index)"
    and lp: "read_abs_dataset_loop float rnd interp1d folder fmt ip wa meth (length files) rest 1
               (stack0, ex0, indexes0) = Inr (abs_stack, ex_range, indexes)"
    by (auto simp: read_abs_dataset_def Let_def split: sum.splits)
  show ?thesis
  proof (cases "rest = []")
    case True
    with lp rd files show ?thesis by simp
  next
    case False
    from read_abs_dataset_loop_grid[OF lp False] False files show ?thesis by simp
  qed
qed


section \<open>Properties of read\_parafac\_model\<close>

text \<open>The metadata loop returns only if there was a line to stop at.\<close>

lemma read_info_returns:
  assumes "read_info line rest c d = Some y"
  shows "line \<noteq> [] \<or> rest \<noteq> []"
  using assms
proof (rule read_info.raw_induct[rotated 1,
      where P = "\<lambda>line rest c d y. line \<noteq> [] \<or> rest \<noteq> []"])
  fix f :: "string \<Rightarrow> string list \<Rightarrow> nat \<Rightarrow> (string \<rightharpoonup> string) \<Rightarrow>
     (string \<times> string list \<times> nat \<times> (string \<rightharpoonup> string)) option"
    and line rest c d y
  assume IH: "\<And>l r c d y. f l r c d = Some y \<Longrightarrow> l \<noteq> [] \<or> r \<noteq> []"
    and eq: "(if \<not> contains ''#'' line
      then let phrase = split_on (CHR 0x09) line
           in Let (d(hd phrase \<mapsto> if 1 < length phrase then phrase ! 1 else []))
               (f (fst (next_line rest)) (snd (next_line rest)) (Suc c))
      else Some (line, rest, c, d)) = Some y"
  show "line \<noteq> [] \<or> rest \<noteq> []"
  proof (rule ccontr)
    assume "\<not> (line \<noteq> [] \<or> rest \<noteq> [])"
    then have e: "line = []" "rest = []" by simp_all
    with eq obtain d' where "f [] [] (Suc c) d' = Some y"
      by (simp add: next_line_def Let_def)
    from IH[OF this] show False by simp
  qed
qed

lemma read_info_stuck: "read_info [] [] c d = None"
  using read_info_returns[of "[]" "[]" c d] by (cases "read_info [] [] c d") auto

text \<open>The last loop returns only if it never meets a line with \<open>'#'\<close> and without \<open>'end'\<close>.\<close>

lemma read_end_returns:
  assumes "read_end read_csv to_datetime lines labels lcs lc line rest score_df = Some y"
  shows "\<not> (contains ''#'' line \<and> \<not> contains ''end'' line)"
  using assms
  by (rule read_end.raw_induct[rotated 1,
        where P = "\<lambda>read_csv to_datetime lines labels lcs lc line rest score_df y.
                     \<not> (contains ''#'' line \<and> \<not> contains ''end'' line)"])
     (auto split: if_splits)

lemma read_end_stuck:
  "contains ''#'' line \<Longrightarrow> \<not> contains ''end'' line \<Longrightarrow>
   read_end read_csv to_datetime lines labels lcs lc line rest score_df = None"
  using read_end_returns[of read_csv to_datetime lines labels lcs lc line rest score_df]
  by (cases "read_end read_csv to_datetime lines labels lcs lc line rest score_df") auto

text \<open>Where the cursor stands after each loop on the model file.\<close>

lemma step_A:
  "skip_while ''#'' (fst (next_line (parafac_file e))) (snd (next_line (parafac_file e))) 0 =
     (tsv [''name'', ''demo''], drop 4 (parafac_file e), 3)"
  by (simp add: parafac_file_def next_line_def strip_def isspace_def tsv_def)

lemma step_B:
  "read_info (tsv [''name'', ''demo'']) (drop 4 (parafac_file e)) 3 Map.empty =
     Some (''#'', drop 5 (parafac_file e), 4, [''name'' \<mapsto> ''demo''])"
  apply (subst read_info.simps)
  apply (simp add: parafac_file_def next_line_def strip_def isspace_def tsv_def Let_def)
  apply (subst read_info.simps)
  apply simp
  done

lemma step_C:
  "skip_while ''#'' ''#'' (drop 5 (parafac_file e)) 4 =
     (tsv [''Ex'', ''250'', ''0.1'', ''0.2''], drop 8 (parafac_file e), 7)"
  by (simp add: parafac_file_def next_line_def strip_def isspace_def tsv_def)

lemma step_D:
  "skip_while ''Ex'' (tsv [''Ex'', ''250'', ''0.1'', ''0.2'']) (drop 8 (parafac_file e)) 7 =
     (tsv [''Em'', ''300'', ''0.5'', ''0.6''], drop 10 (parafac_file e), 9)"
  by (simp add: parafac_file_def next_line_def strip_def isspace_def tsv_def)

lemma step_E:
  "skip_while ''Em'' (tsv [''Em'', ''300'', ''0.5'', ''0.6'']) (drop 10 (parafac_file e)) 9 =
     (''#'', drop 12 (parafac_file e), 11)"
  by (simp add: parafac_file_def next_line_def strip_def isspace_def tsv_def)

lemma step_F:
  "skip_while ''#'' ''#'' (drop 12 (parafac_file e)) 11 =
     (tsv [''Score'', ''2024-01-01'', ''1'', ''2''], drop 15 (parafac_file e), 14)"
  by (simp add: parafac_file_def next_line_def strip_def isspace_def tsv_def)

lemma step_G:
  "skip_while ''Score'' (tsv [''Score'', ''2024-01-01'', ''1'', ''2''])
     (drop 15 (parafac_file [''#'', ''# end'', ''#''])) 14 =
     (''#'', drop 18 (parafac_file [''#'', ''# end'', ''#'']), 17)"
  by (simp add: parafac_file_def next_line_def strip_def isspace_def tsv_def)

lemma step_G_single:
  "skip_while ''Score'' (tsv [''Score'', ''2024-01-01'', ''1'', ''2''])
     (drop 15 (parafac_file [''# end #''])) 14 = (''# end #'', [], 17)"
  by (simp add: parafac_file_def next_line_def strip_def isspace_def tsv_def)

lemma component_labels_2:
  "component_labels 2 = [Name ''component 1'', Name ''component 2'']"
  by (simp add: component_labels_def digit_char_def upt_rec)

text \<open>
  When the score rows are followed by the single line \<open># end #\<close>, the function asks pandas
  for the lines 7-8, 9-10 and 14-16, and, if pandas returns tables of two columns, labels
  them \<open>component 1\<close>, \<open>component 2\<close> and returns them with the metadata.
\<close>

lemma read_parafac_model_single_end_line:
  assumes ex: "read_csv (parafac_file [''# end #'']) 7 2 = Some ex_raw"
      "length (df_columns ex_raw) = 2"
    and em: "read_csv (parafac_file [''# end #'']) 9 2 = Some em_raw"
      "length (df_columns em_raw) = 2"
    and sc: "read_csv (parafac_file [''# end #'']) 14 3 = Some score_raw"
      "to_datetime score_raw = Some score_dt" "length (df_columns score_dt) = 2"
  shows "read_parafac_model read_csv to_datetime (parafac_file [''# end #'']) =
   Some (Inr (ex_raw\<lparr>df_columns := [Name ''component 1'', Name ''component 2''],
                     df_index_names := [''type'', ''wavelength'']\<rparr>,
              em_raw\<lparr>df_columns := [Name ''component 1'', Name ''component 2''],
                     df_index_names := [''type'', ''wavelength'']\<rparr>,
              Some (score_dt\<lparr>df_columns := [Name ''component 1'', Name ''component 2''],
                             df_index_names := [''type'', ''time'']\<rparr>),
              [''name'' \<mapsto> ''demo'']))"
proof -
  let ?F = "parafac_file [''# end #'']"
  have fin: "read_end read_csv to_datetime ?F [Name ''component 1'', Name ''component 2'']
       14 17 ''# end #'' [] None =
     Some (Inr (Some (score_dt\<lparr>df_columns := [Name ''component 1'', Name ''component 2''],
                             df_index_names := [''type'', ''time'']\<rparr>)))"
    apply (subst read_end.simps)
    apply (simp add: sc set_columns_def next_line_def)
    apply (subst read_end.simps)
    apply simp
    done
  show ?thesis
    unfolding read_parafac_model_def step_A step_B step_C step_D step_E step_F step_G_single
      prod.case option.case Let_def
    by (simp add: ex em component_labels_2 set_columns_def fin)
qed

text \<open>
  Claim C9: for every well-formed OpenFluor file \<open>read_parafac_model\<close> returns the loadings
  tables and, when score rows are present, the scores table. The file below has the
  blocks the format asks for, two components and three score rows, and a terminating
  comment block of three lines, \<open>#\<close>, \<open># end\<close>, \<open>#\<close>, written like the other comment blocks.
  Whatever pandas does, the function returns nothing for it: if the tables before are
  read it stays in the last loop on the line \<open>#\<close> for ever.
\<close>

theorem read_parafac_model_end_block_failing_input:
  "read_parafac_model read_csv to_datetime (parafac_file [''#'', ''# end'', ''#'']) \<noteq> Some (Inr r)"
proof -
  have stuck: "read_end read_csv to_datetime lines labels 14 17 ''#'' rest None = None"
    for lines labels rest
    by (rule read_end_stuck) simp_all
  show ?thesis
    unfolding read_parafac_model_def step_A step_B step_C step_D step_E step_F step_G
      prod.case option.case Let_def stuck
    by (simp split: option.splits sum.splits)
qed

end
